theory Spec2Isabelle
  imports Complex_Main "HOL-Library.Sublist"
begin

section \<open>Python values, exceptions and the math module\<close>

text \<open>
  Python floats are modelled as the real numbers: rounding, underflow and NaN are outside
  the model. The operations that raise OverflowError when their result leaves the float
  range (\<open>10 ** x\<close> and the conversion of an int operand to a float) raise it in the
  model; a float product or quotient beyond the range is \<open>inf\<close> in Python, raises
  nothing, and is computed on the reals here. An execution that takes the \<open>-inf\<close>
  branch of \<open>w_to_dbw\<close> is cut off with the marker \<open>NonFinite\<close>, which is not a
  Python exception; every other constructor of \<open>error\<close> is the exception of that name.
\<close>

datatype error = ValueError | TypeError | ZeroDivisionError | OverflowError | NonFinite

fun bindE :: "error + 'a \<Rightarrow> ('a \<Rightarrow> error + 'b) \<Rightarrow> error + 'b" where
  "bindE (Inl e) f = Inl e"
| "bindE (Inr x) f = f x"

text \<open>\<open>math.log10\<close>, \<open>math.log\<close> and \<open>math.sqrt\<close> raise ValueError outside their domain.\<close>

definition math_log10 :: "real \<Rightarrow> error + real" where
  "math_log10 x = (if 0 < x then Inr (log 10 x) else Inl ValueError)"

definition math_log :: "real \<Rightarrow> error + real" where
  "math_log x = (if 0 < x then Inr (ln x) else Inl ValueError)"

definition math_sqrt :: "real \<Rightarrow> error + real" where
  "math_sqrt x = (if 0 \<le> x then Inr (sqrt x) else Inl ValueError)"

text \<open>
  The largest finite double. The conversion of an int to a float (implicit in \<open>int * float\<close>,
  \<open>int + float\<close> and \<open>int ** float\<close>) and \<open>10 ** x\<close> raise OverflowError beyond it;
  rounding at the bound is not modelled.
\<close>

definition float_max :: real where
  "float_max = (2 - 1 / 2 ^ 52) * 2 ^ 1023"

definition py_float :: "int \<Rightarrow> error + real" where
  "py_float n = (if \<bar>real_of_int n\<bar> > float_max then Inl OverflowError else Inr (real_of_int n))"

definition pow10 :: "real \<Rightarrow> error + real" where
  "pow10 x = (if 10 powr x > float_max then Inl OverflowError else Inr (10 powr x))"

text \<open>Float division \<open>a / b\<close> raises ZeroDivisionError on a zero divisor.\<close>

definition py_div :: "real \<Rightarrow> real \<Rightarrow> error + real" where
  "py_div a b = (if b = 0 then Inl ZeroDivisionError else Inr (a / b))"

section \<open>constants.py\<close>

definition C_LIGHT :: real where
  "C_LIGHT = 299792458"

definition K_B :: real where
  "K_B = 1.380649 / 10 ^ 23"

text \<open>
  \<open>w_to_dbw\<close> returns \<open>10 * log10(w)\<close> for a positive argument and \<open>-inf\<close>
  otherwise; the second branch leaves the reals.
\<close>

definition W_TO_DBW :: "real \<Rightarrow> error + real" where
  "W_TO_DBW w = (if 0 < w then bindE (math_log10 w) (\<lambda>l. Inr (10 * l)) else Inl NonFinite)"

section \<open>models/radar/integration.py\<close>

definition coherent_integration_gain :: "int \<Rightarrow> error + real" where
  "coherent_integration_gain n_pulses =
     (if n_pulses < 1 then Inl ValueError
      else if n_pulses = 1 then Inr 0
      else bindE (math_log10 (real_of_int n_pulses)) (\<lambda>l. Inr (10 * l)))"

definition noncoherent_integration_gain :: "int \<Rightarrow> real \<Rightarrow> real \<Rightarrow> error + real" where
  "noncoherent_integration_gain n_pulses pd pfa =
     (if n_pulses < 1 then Inl ValueError
      else if n_pulses = 1 then Inr 0
      else
        let efficiency =
              (if pd \<ge> 0.99 then 0.7
               else if pd \<ge> 0.9 then 0.8
               else if pd \<ge> 0.5 then 0.85
               else 0.9)
        in bindE (math_log10 (real_of_int n_pulses)) (\<lambda>l. Inr (10 * efficiency * l)))"

definition integration_loss :: "int \<Rightarrow> string \<Rightarrow> real \<Rightarrow> real \<Rightarrow> error + real" where
  "integration_loss n_pulses integration_type pd pfa =
     (if integration_type = ''coherent'' then Inr 0
      else
        bindE (coherent_integration_gain n_pulses) (\<lambda>coherent.
        bindE (noncoherent_integration_gain n_pulses pd pfa) (\<lambda>noncoherent.
        Inr (coherent - noncoherent))))"

section \<open>models/radar/detection.py\<close>

text \<open>
  \<open>scipy.special\<close> is an external library: the two functions the module uses are
  parameters of the model. \<open>gammaincinv a y\<close> is the inverse of the regularised lower
  incomplete gamma function, \<open>erfc\<close> the complementary error function.
\<close>

record scipy_special =
  erfc :: "real \<Rightarrow> real"
  gammaincinv :: "real \<Rightarrow> real \<Rightarrow> real"

definition compute_detection_threshold :: "scipy_special \<Rightarrow> real \<Rightarrow> int \<Rightarrow> error + real" where
  "compute_detection_threshold special pfa n_samples =
     (if \<not> (0 < pfa \<and> pfa < 1) then Inl ValueError
      else if n_samples < 1 then Inl ValueError
      else Inr (gammaincinv special (real_of_int n_samples) (1 - pfa)))"

text \<open>
  \<open>n_pulses ** 0.8\<close> on a negative int is a complex number in Python; the value
  \<open>None\<close> of \<open>snr_integrated\<close> stands for it. \<open>math.sqrt\<close> and the comparison
  \<open>snr_integrated > 0\<close> raise TypeError on a complex argument. Both
  \<open>snr_linear * n_pulses\<close> and \<open>n_pulses ** 0.8\<close> convert the int to a float first.
\<close>

definition compute_pd_from_snr ::
  "scipy_special \<Rightarrow> real \<Rightarrow> real \<Rightarrow> int \<Rightarrow> int \<Rightarrow> string \<Rightarrow> error + real" where
  "compute_pd_from_snr special snr_db pfa swerling n_pulses integration =
     (if \<not> (0 < pfa \<and> pfa < 1) then Inl ValueError
      else
        bindE (pow10 (snr_db / 10)) (\<lambda>snr_linear.
        bindE (if integration = ''coherent'' then
                 bindE (py_float n_pulses) (\<lambda>n. Inr (Some (snr_linear * n)))
               else
                 bindE (py_float n_pulses) (\<lambda>n.
                   if n < 0 then Inr None else Inr (Some (snr_linear * (n powr 0.8)))))
          (\<lambda>snr_integrated.
        bindE (compute_detection_threshold special pfa 1) (\<lambda>threshold.
          if swerling = 0 then
            (case snr_integrated of
               None \<Rightarrow> Inl TypeError
             | Some snr \<Rightarrow>
                 bindE (math_sqrt (2 * snr)) (\<lambda>a.
                 bindE (math_sqrt (2 * threshold)) (\<lambda>b.
                   let pd = (if a > b then 0.5 * erfc special ((b - a) / sqrt 2)
                             else 0.5 * erfc special ((b - a) / sqrt 2))
                   in Inr (max 0 (min 1 pd)))))
          else if swerling \<in> {1, 2, 3, 4} then
            (case snr_integrated of
               None \<Rightarrow> Inl TypeError
             | Some snr \<Rightarrow>
                 let factor =
                       (if swerling = 1 then (if snr > 0 then 1 + 1 / snr else 0)
                        else if swerling = 2 then (if snr > 0 then 1 + 0.5 / snr else 0)
                        else if swerling = 3 then (if snr > 0 then 1 + 2 / snr else 0)
                        else (if snr > 0 then 1 + 1 / snr else 0));
                     adj_snr = (if factor > 0 then snr / factor else snr)
                 in
                 bindE (math_sqrt (2 * adj_snr)) (\<lambda>a.
                 bindE (math_sqrt (2 * threshold)) (\<lambda>b.
                   let pd = 0.5 * erfc special ((b - a) / sqrt 2)
                   in Inr (max 0 (min 1 pd)))))
          else Inl ValueError))))"

definition albersheim_snr :: "real \<Rightarrow> real \<Rightarrow> int \<Rightarrow> error + real" where
  "albersheim_snr pd pfa n_pulses =
     (if \<not> (0.1 \<le> pd \<and> pd \<le> 0.9999) then Inl ValueError
      else if \<not> (1 / 10 ^ 10 \<le> pfa \<and> pfa \<le> 0.1) then Inl ValueError
      else if n_pulses < 1 then Inl ValueError
      else
        bindE (py_div 0.62 pfa) (\<lambda>q.
        bindE (math_log q) (\<lambda>A.
        bindE (py_div pd (1 - pd)) (\<lambda>r.
        bindE (math_log r) (\<lambda>B.
        bindE (math_log10 (real_of_int n_pulses)) (\<lambda>l1.
        bindE (py_float n_pulses) (\<lambda>n.
        bindE (math_sqrt (n + 0.44)) (\<lambda>sq.
        bindE (py_div 4.54 sq) (\<lambda>d.
        bindE (math_log10 (A + 0.12 * A * B + 1.7 * B)) (\<lambda>l2.
          Inr (- 5 * l1 + (6.2 + d) * l2)))))))))))"

section \<open>Metrics records, architecture and scenarios\<close>

text \<open>
  A metrics record (\<open>MetricsDict\<close>) maps metric names to numbers or strings; Python ints
  and floats are both \<open>Num\<close>. \<open>dict.update\<close> is the right-biased union \<open>++\<close>.
\<close>

datatype metric_value = Num real | Str string

type_synonym MetricsDict = "string \<rightharpoonup> metric_value"

text \<open>
  The architecture module is not part of the sources at hand: the records hold the
  attributes the radar model reads, \<open>n_elements\<close> (a property of the array
  configuration) among them.
\<close>

record ArrayConfig =
  nx :: int
  ny :: int
  dx_lambda :: real
  dy_lambda :: real
  n_elements :: int

record RFChainConfig =
  tx_power_w_per_elem :: real
  feed_loss_db :: real
  system_loss_db :: real
  noise_figure_db :: real

record Architecture =
  array :: ArrayConfig
  rf :: RFChainConfig

text \<open>scenarios/radar.py; \<open>freq_hz\<close> is inherited from \<open>ScenarioBase\<close>.\<close>

record RadarDetectionScenario =
  freq_hz :: real
  bandwidth_hz :: real
  range_m :: real
  target_rcs_dbsm :: real
  rx_noise_temp_k :: real
  pfa :: real
  pd_required :: real
  n_pulses :: int
  scan_angle_deg :: real
  integration_type :: string

text \<open>The field constraints declared in scenarios/radar.py.\<close>

definition RadarDetectionScenario_valid :: "RadarDetectionScenario \<Rightarrow> bool" where
  "RadarDetectionScenario_valid s =
     (0 < bandwidth_hz s \<and> 0 < range_m s \<and> 0 < rx_noise_temp_k s
      \<and> 0 < pfa s \<and> pfa s < 1
      \<and> 0 < pd_required s \<and> pd_required s < 1
      \<and> 1 \<le> n_pulses s
      \<and> 0 \<le> scan_angle_deg s \<and> scan_angle_deg s \<le> 90
      \<and> (integration_type s = ''coherent'' \<or> integration_type s = ''noncoherent''))"

text \<open>
  The communications scenario is built by the callers from a frequency, a bandwidth, a
  range and a required SNR (in this order below); no code at hand reads its fields.
\<close>

datatype CommsLinkScenario = CommsLinkScenario real real real real

datatype Scenario = CommsScenario CommsLinkScenario | RadarScenario RadarDetectionScenario

section \<open>models/radar/equation.py\<close>

text \<open>
  Arithmetic on a value taken from the context: subtraction of two numbers, TypeError
  when a string is involved.
\<close>

definition py_sub :: "metric_value \<Rightarrow> metric_value \<Rightarrow> error + metric_value" where
  "py_sub a b = (case a of
      Num x \<Rightarrow> (case b of Num y \<Rightarrow> Inr (Num (x - y)) | Str _ \<Rightarrow> Inl TypeError)
    | Str _ \<Rightarrow> Inl TypeError)"

definition as_float :: "metric_value \<Rightarrow> error + real" where
  "as_float v = (case v of Num x \<Rightarrow> Inr x | Str _ \<Rightarrow> Inl TypeError)"

definition RadarModel_evaluate ::
  "scipy_special \<Rightarrow> Architecture \<Rightarrow> RadarDetectionScenario \<Rightarrow> MetricsDict \<Rightarrow> error + MetricsDict" where
  "RadarModel_evaluate special arch scenario context =
     bindE (case context ''g_peak_db'' of
              Some g \<Rightarrow>
                (case context ''scan_loss_db'' of
                   Some l \<Rightarrow> py_sub g l
                 | None \<Rightarrow> Inr g)
            | None \<Rightarrow>
                bindE (py_float (nx (array arch))) (\<lambda>nx_f.
                bindE (py_float (ny (array arch))) (\<lambda>ny_f.
                let aperture_lambda_sq =
                      nx_f * dx_lambda (array arch) * ny_f * dy_lambda (array arch);
                    g_ant_linear = 4 * pi * aperture_lambda_sq
                in bindE (math_log10 g_ant_linear) (\<lambda>l. Inr (Num (10 * l)))))) (\<lambda>g_ant.
     bindE (py_float (n_elements (array arch))) (\<lambda>n_elements_f.
     let peak_power_w = tx_power_w_per_elem (rf arch) * n_elements_f in
     bindE (W_TO_DBW peak_power_w) (\<lambda>peak_power_dbw.
     bindE (py_div C_LIGHT (freq_hz scenario)) (\<lambda>wavelength_m.
     bindE (math_log10 wavelength_m) (\<lambda>lw.
     let wavelength_db = 10 * lw;
         sys_loss_db = feed_loss_db (rf arch) + system_loss_db (rf arch);
         rcs_dbsm = target_rcs_dbsm scenario in
     bindE (pow10 (rcs_dbsm / 10)) (\<lambda>rcs_m2.
     let rng_m = range_m scenario in
     bindE (math_log10 rng_m) (\<lambda>lr.
     let range_db = 10 * lr;
         noise_temp_k = rx_noise_temp_k scenario;
         noise_power_w = K_B * noise_temp_k * bandwidth_hz scenario in
     bindE (W_TO_DBW noise_power_w) (\<lambda>nw.
     let noise_power_dbw = nw + noise_figure_db (rf arch);
         radar_constant_db = 30 * log 10 (4 * pi) in
     bindE (as_float g_ant) (\<lambda>g_ant_db.
     let snr_single_db =
           peak_power_dbw + 2 * g_ant_db + 2 * wavelength_db + rcs_dbsm
           - 4 * range_db - sys_loss_db - radar_constant_db - noise_power_dbw;
         n = n_pulses scenario in
     bindE (if integration_type scenario = ''coherent'' then coherent_integration_gain n
            else noncoherent_integration_gain n (pd_required scenario) (pfa scenario))
       (\<lambda>integration_gain_db.
     let snr_integrated_db = snr_single_db + integration_gain_db in
     bindE (albersheim_snr (pd_required scenario) (pfa scenario) 1) (\<lambda>snr_required_db.
     let snr_margin_db = snr_integrated_db - snr_required_db in
     bindE (compute_pd_from_snr special snr_integrated_db (pfa scenario) 0 1 ''coherent'')
       (\<lambda>pd_achieved.
     bindE (if snr_margin_db > - 40 then
              bindE (pow10 (snr_margin_db / 40)) (\<lambda>p. Inr (rng_m * p))
            else Inr 0)
       (\<lambda>detection_range_m.
     Inr [''peak_power_w'' \<mapsto> Num peak_power_w,
             ''peak_power_dbw'' \<mapsto> Num peak_power_dbw,
             ''g_ant_db'' \<mapsto> Num g_ant_db,
             ''wavelength_m'' \<mapsto> Num wavelength_m,
             ''target_rcs_dbsm'' \<mapsto> Num rcs_dbsm,
             ''target_rcs_m2'' \<mapsto> Num rcs_m2,
             ''range_m'' \<mapsto> Num rng_m,
             ''noise_power_dbw'' \<mapsto> Num noise_power_dbw,
             ''system_loss_db'' \<mapsto> Num sys_loss_db,
             ''snr_single_pulse_db'' \<mapsto> Num snr_single_db,
             ''integration_gain_db'' \<mapsto> Num integration_gain_db,
             ''snr_integrated_db'' \<mapsto> Num snr_integrated_db,
             ''snr_required_db'' \<mapsto> Num snr_required_db,
             ''snr_margin_db'' \<mapsto> Num snr_margin_db,
             ''pd_achieved'' \<mapsto> Num pd_achieved,
             ''pd_required'' \<mapsto> Num (pd_required scenario),
             ''pfa'' \<mapsto> Num (pfa scenario),
             ''n_pulses'' \<mapsto> Num (real_of_int n),
             ''integration_type'' \<mapsto> Str (integration_type scenario),
             ''detection_range_m'' \<mapsto> Num detection_range_m])))))))))))))"

section \<open>Requirements\<close>

text \<open>
  The requirements module is not part of the sources at hand. A requirement is built by
  the callers from an identifier, a name, a metric key, an operator, a value and a
  severity; \<open>evaluate_case\<close> reads four attributes of the verification report.
\<close>

datatype comparison_op = Ge | Le | Gt | Lt | Eq

datatype Severity = Must | Should

record Requirement =
  req_id :: string
  req_name :: string
  metric_key :: string
  req_op :: comparison_op
  req_value :: real
  req_severity :: Severity

record VerificationReport =
  passes :: bool
  must_pass_count :: nat
  must_total_count :: nat
  failed_ids :: "string list"

text \<open>
  Modelled from the spec: the check of one requirement by \<open>RequirementSet.verify\<close>,
  which is missing from the sources. A requirement whose metric key is absent from the
  record fails; otherwise the operator is applied to the metric value and the threshold.
  A case passes iff every requirement of severity must passes; the report counts the must
  requirements that pass, the must requirements, and lists the identifiers of the failed
  requirements in order. A metric that is not a number is taken as failed.
\<close>

definition requirement_check :: "Requirement \<Rightarrow> MetricsDict \<Rightarrow> bool" where
  "requirement_check r metrics =
     (case metrics (metric_key r) of
        None \<Rightarrow> False
      | Some (Str _) \<Rightarrow> False
      | Some (Num x) \<Rightarrow>
          (case req_op r of
             Ge \<Rightarrow> x \<ge> req_value r
           | Le \<Rightarrow> x \<le> req_value r
           | Gt \<Rightarrow> x > req_value r
           | Lt \<Rightarrow> x < req_value r
           | Eq \<Rightarrow> x = req_value r))"

text \<open>
  Modelled from the spec: the report of \<open>RequirementSet.verify\<close> (missing from the
  sources), from the outcome of every requirement as above.
\<close>

definition RequirementSet_verify :: "Requirement list \<Rightarrow> MetricsDict \<Rightarrow> error + VerificationReport" where
  "RequirementSet_verify requirements metrics =
     (let must = filter (\<lambda>r. req_severity r = Must) requirements
      in Inr \<lparr> passes = list_all (\<lambda>r. requirement_check r metrics) must,
               must_pass_count = length (filter (\<lambda>r. requirement_check r metrics) must),
               must_total_count = length must,
               failed_ids = map req_id (filter (\<lambda>r. \<not> requirement_check r metrics) requirements) \<rparr>)"

section \<open>evaluate.py\<close>

text \<open>
  The antenna, power, cost and communications models, \<open>RequirementSet.verify\<close> and the
  two readings of \<open>time.perf_counter\<close> are not defined in the sources at hand: they are
  the fields of an environment, each model a function from architecture, scenario and
  context to a metrics record or an exception. The radar model is the one of
  models/radar/equation.py.
\<close>

record Environment =
  antenna_model :: "Architecture \<Rightarrow> Scenario \<Rightarrow> MetricsDict \<Rightarrow> error + MetricsDict"
  power_model :: "Architecture \<Rightarrow> Scenario \<Rightarrow> MetricsDict \<Rightarrow> error + MetricsDict"
  cost_model :: "Architecture \<Rightarrow> Scenario \<Rightarrow> MetricsDict \<Rightarrow> error + MetricsDict"
  comms_model :: "Architecture \<Rightarrow> CommsLinkScenario \<Rightarrow> MetricsDict \<Rightarrow> error + MetricsDict"
  special :: scipy_special
  verify :: "Requirement list \<Rightarrow> MetricsDict \<Rightarrow> error + VerificationReport"
  perf_counter_start :: real
  perf_counter_end :: real

text \<open>
  A call of \<open>evaluate\<close> or \<open>verify\<close> made by \<open>evaluate_case\<close>, with the context (for
  \<open>verify\<close>: the metrics record) it is given. \<open>evaluate_case\<close> returns the calls it made,
  in order, beside its result.
\<close>

datatype model_call =
    AntennaCall MetricsDict
  | PowerCall MetricsDict
  | CostCall MetricsDict
  | CommsCall MetricsDict
  | RadarCall MetricsDict
  | VerifyCall MetricsDict

text \<open>\<open>sep.join(xs)\<close>\<close>

fun join :: "string \<Rightarrow> string list \<Rightarrow> string" where
  "join sep [] = []"
| "join sep [x] = x"
| "join sep (x # y # ys) = x @ sep @ join sep (y # ys)"

text \<open>The dispatch on the scenario's class (the \<open>isinstance\<close> chain of \<open>evaluate_case\<close>).\<close>

definition evaluate_case_scenario ::
  "Environment \<Rightarrow> Architecture \<Rightarrow> Scenario \<Rightarrow> MetricsDict \<Rightarrow> model_call \<times> (error + MetricsDict)" where
  "evaluate_case_scenario env arch scenario context =
     (case scenario of
        CommsScenario s \<Rightarrow> (CommsCall context, comms_model env arch s context)
      | RadarScenario s \<Rightarrow> (RadarCall context, RadarModel_evaluate (special env) arch s context))"

text \<open>The verification block of \<open>evaluate_case\<close>.\<close>

definition evaluate_case_verify ::
  "Environment \<Rightarrow> Requirement list option \<Rightarrow> MetricsDict \<Rightarrow> model_call list \<times> (error + MetricsDict)" where
  "evaluate_case_verify env requirements metrics =
     (case requirements of
        None \<Rightarrow> ([], Inr metrics)
      | Some rs \<Rightarrow>
          if length rs > 0 then
            ([VerifyCall metrics],
             bindE (verify env rs metrics) (\<lambda>report.
               Inr (metrics(''verification.passes'' \<mapsto> Num (if passes report then 1 else 0),
                            ''verification.must_pass_count'' \<mapsto> Num (real (must_pass_count report)),
                            ''verification.must_total_count'' \<mapsto> Num (real (must_total_count report)),
                            ''verification.failed_ids'' \<mapsto>
                               Str (if failed_ids report \<noteq> [] then join '','' (failed_ids report) else [])))))
          else ([], Inr metrics))"

definition evaluate_case ::
  "Environment \<Rightarrow> Architecture \<Rightarrow> Scenario \<Rightarrow> Requirement list option \<Rightarrow> string option
     \<Rightarrow> model_call list \<times> (error + MetricsDict)" where
  "evaluate_case env arch scenario requirements case_id =
     (let metrics0 = (case case_id of None \<Rightarrow> Map.empty | Some c \<Rightarrow> [''meta.case_id'' \<mapsto> Str c])
      in
      (case antenna_model env arch scenario Map.empty of
        Inl e \<Rightarrow> ([AntennaCall Map.empty], Inl e)
      | Inr antenna_metrics \<Rightarrow>
         (let metrics1 = metrics0 ++ antenna_metrics;
              context = antenna_metrics
          in
          (case power_model env arch scenario context of
            Inl e \<Rightarrow> ([AntennaCall Map.empty, PowerCall context], Inl e)
          | Inr power_metrics \<Rightarrow>
             (let metrics2 = metrics1 ++ power_metrics
              in
              (case cost_model env arch scenario context of
                Inl e \<Rightarrow> ([AntennaCall Map.empty, PowerCall context, CostCall context], Inl e)
              | Inr cost_metrics \<Rightarrow>
                 (let metrics3 = metrics2 ++ cost_metrics;
                      scenario_step = evaluate_case_scenario env arch scenario context;
                      calls = [AntennaCall Map.empty, PowerCall context, CostCall context,
                               fst scenario_step]
                  in
                  (case snd scenario_step of
                    Inl e \<Rightarrow> (calls, Inl e)
                  | Inr scenario_metrics \<Rightarrow>
                     (let metrics4 = metrics3 ++ scenario_metrics;
                          verify_step = evaluate_case_verify env requirements metrics4
                      in
                      (case snd verify_step of
                        Inl e \<Rightarrow> (calls @ fst verify_step, Inl e)
                      | Inr metrics5 \<Rightarrow>
                          (calls @ fst verify_step,
                           Inr (metrics5(''meta.runtime_s'' \<mapsto>
                                  Num (perf_counter_end env - perf_counter_start env))))))))))))))"

section \<open>Pareto extraction\<close>

text \<open>
  A row of a results table: its numeric columns and its optional \<open>meta.error\<close> field.
\<close>

record ResultRow =
  metric :: "string \<Rightarrow> real"
  meta_error :: "string option"

subsection \<open>app/pages/2\_Trade\_Study.py: the demonstration loop\<close>

text \<open>The condition of the inner \<open>if\<close>: row \<open>j\<close> dominates row \<open>i\<close>.\<close>

definition demo_dominates :: "ResultRow list \<Rightarrow> nat \<Rightarrow> nat \<Rightarrow> bool" where
  "demo_dominates results_df j i =
     (metric (results_df ! j) ''cost_usd'' \<le> metric (results_df ! i) ''cost_usd''
      \<and> metric (results_df ! j) ''eirp_dbw'' \<ge> metric (results_df ! i) ''eirp_dbw''
      \<and> (metric (results_df ! j) ''cost_usd'' < metric (results_df ! i) ''cost_usd''
         \<or> metric (results_df ! j) ''eirp_dbw'' > metric (results_df ! i) ''eirp_dbw''))"

text \<open>
  The inner loop over \<open>j\<close>, from the value \<open>True\<close> of \<open>is_pareto[i]\<close>: the result is
  the value of \<open>is_pareto[i]\<close> when the loop ends or breaks.
\<close>

fun demo_inner_loop :: "ResultRow list \<Rightarrow> nat \<Rightarrow> nat list \<Rightarrow> bool" where
  "demo_inner_loop results_df i [] = True"
| "demo_inner_loop results_df i (j # js) =
     (if i \<noteq> j \<and> demo_dominates results_df j i then False
      else demo_inner_loop results_df i js)"

definition demo_is_pareto :: "ResultRow list \<Rightarrow> bool list" where
  "demo_is_pareto results_df =
     map (\<lambda>i. demo_inner_loop results_df i [0..<length results_df]) [0..<length results_df]"

text \<open>\<open>results_df[is_pareto]\<close>: the rows whose flag is set, in order.\<close>

definition demo_pareto_df :: "ResultRow list \<Rightarrow> ResultRow list" where
  "demo_pareto_df results_df = map fst (filter snd (zip results_df (demo_is_pareto results_df)))"

subsection \<open>The Pareto engine\<close>

text \<open>
  Modelled from the spec: the direction of an objective and the two comparisons it
  induces on metric values; the Pareto engine is missing from the sources.
\<close>

datatype direction = Minimize | Maximize

definition at_least_as_good :: "direction \<Rightarrow> real \<Rightarrow> real \<Rightarrow> bool" where
  "at_least_as_good d a b = (case d of Minimize \<Rightarrow> a \<le> b | Maximize \<Rightarrow> a \<ge> b)"

definition strictly_better :: "direction \<Rightarrow> real \<Rightarrow> real \<Rightarrow> bool" where
  "strictly_better d a b = (case d of Minimize \<Rightarrow> a < b | Maximize \<Rightarrow> a > b)"

text \<open>
  Modelled from the spec: the dominance relation of the Pareto engine, which is missing
  from the sources. \<open>dominates objectives rj ri\<close>: row \<open>rj\<close> is at least as good as
  row \<open>ri\<close> on every objective and strictly better on at least one.
\<close>

definition dominates :: "(string \<times> direction) list \<Rightarrow> ResultRow \<Rightarrow> ResultRow \<Rightarrow> bool" where
  "dominates objectives rj ri =
     (list_all (\<lambda>(k, d). at_least_as_good d (metric rj k) (metric ri k)) objectives
      \<and> list_ex (\<lambda>(k, d). strictly_better d (metric rj k) (metric ri k)) objectives)"

text \<open>
  Modelled from the spec: \<open>extract_pareto\<close>, which is missing from the sources. Rows with
  an error field are excluded, then every remaining row is compared with every other and
  kept when none dominates it.
\<close>

definition extract_pareto :: "(string \<times> direction) list \<Rightarrow> ResultRow list \<Rightarrow> ResultRow list" where
  "extract_pareto objectives results =
     (let ok = filter (\<lambda>r. meta_error r = None) results
      in filter (\<lambda>ri. \<not> list_ex (\<lambda>rj. dominates objectives rj ri) ok) ok)"

section \<open>Concrete inputs and auxiliary notions of the statements\<close>

text \<open>The objectives of the demonstration loop: minimise cost, maximise EIRP.\<close>

definition demo_objectives :: "(string \<times> direction) list" where
  "demo_objectives = [(''cost_usd'', Minimize), (''eirp_dbw'', Maximize)]"

text \<open>The rows of a table that no row of the table dominates.\<close>

definition non_dominated :: "(string \<times> direction) list \<Rightarrow> ResultRow list \<Rightarrow> ResultRow list" where
  "non_dominated objs xs = filter (\<lambda>ri. \<not> list_ex (\<lambda>rj. dominates objs rj ri) xs) xs"

text \<open>A results row with a cost, an EIRP and an optional error.\<close>

definition result_row :: "real \<Rightarrow> real \<Rightarrow> string option \<Rightarrow> ResultRow" where
  "result_row cost eirp err =
     \<lparr> metric = (\<lambda>k. if k = ''cost_usd'' then cost else if k = ''eirp_dbw'' then eirp else 0),
       meta_error = err \<rparr>"

definition sample_results :: "ResultRow list" where
  "sample_results =
     [result_row 100 40 None, result_row 200 50 None, result_row 300 45 None,
      result_row 50 60 (Some ''ValueError'')]"

text \<open>
  A stand-in for \<open>scipy.special\<close> at concrete inputs: \<open>gammaincinv\<close> is the exact
  inverse for \<open>a = 1\<close>, where the regularised lower incomplete gamma function is
  \<open>1 - exp (- x)\<close>; \<open>erfc\<close> is replaced by a decreasing function with the same range
  and the same value at 0.
\<close>

definition sample_special :: scipy_special where
  "sample_special = \<lparr> erfc = (\<lambda>x. 1 - x / (1 + \<bar>x\<bar>)), gammaincinv = (\<lambda>a y. - ln (1 - y)) \<rparr>"

text \<open>The record \<open>evaluate_case\<close> starts from, and the value it stores last.\<close>

definition case_id_metrics :: "string option \<Rightarrow> MetricsDict" where
  "case_id_metrics case_id =
     (case case_id of None \<Rightarrow> Map.empty | Some c \<Rightarrow> [''meta.case_id'' \<mapsto> Str c])"

definition runtime_s :: "Environment \<Rightarrow> metric_value" where
  "runtime_s env = Num (perf_counter_end env - perf_counter_start env)"

text \<open>The keys written by \<open>evaluate_case\<close> itself after the models have run.\<close>

definition verification_keys :: "string set" where
  "verification_keys =
     {''verification.passes'', ''verification.must_pass_count'',
      ''verification.must_total_count'', ''verification.failed_ids''}"

text \<open>
  The order of section 4.1 of the specification: the antenna model on an empty context,
  then the power and the cost model on the antenna output, then the one model of the
  scenario's variant on the antenna output.
\<close>

definition pipeline_order :: "Scenario \<Rightarrow> MetricsDict \<Rightarrow> model_call list" where
  "pipeline_order scenario am =
     [AntennaCall Map.empty, PowerCall am, CostCall am,
      (case scenario of CommsScenario _ \<Rightarrow> CommsCall am | RadarScenario _ \<Rightarrow> RadarCall am)]"

fun is_model_call :: "model_call \<Rightarrow> bool" where
  "is_model_call (VerifyCall _) = False"
| "is_model_call _ = True"

text \<open>
  A 16 by 16 array with 10 W per element and the radar scenario of the test suite; an
  environment whose models return one metric each and whose \<open>verify\<close> is the one
  modelled above.
\<close>

definition sample_arch :: Architecture where
  "sample_arch =
     \<lparr> array = \<lparr> nx = 16, ny = 16, dx_lambda = 0.5, dy_lambda = 0.5, n_elements = 256 \<rparr>,
       rf = \<lparr> tx_power_w_per_elem = 10, feed_loss_db = 1, system_loss_db = 0,
              noise_figure_db = 3 \<rparr> \<rparr>"

definition sample_radar :: RadarDetectionScenario where
  "sample_radar =
     \<lparr> freq_hz = 10 ^ 10, bandwidth_hz = 10 ^ 6, range_m = 50000, target_rcs_dbsm = 0,
       rx_noise_temp_k = 290, pfa = 1 / 10 ^ 6, pd_required = 0.9, n_pulses = 10,
       scan_angle_deg = 0, integration_type = ''noncoherent'' \<rparr>"

definition sample_comms :: CommsLinkScenario where
  "sample_comms = CommsLinkScenario (10 ^ 10) (10 ^ 7) 100000 10"

definition sample_env :: Environment where
  "sample_env =
     \<lparr> antenna_model = (\<lambda>arch scenario context. Inr [''g_peak_db'' \<mapsto> Num 30]),
       power_model = (\<lambda>arch scenario context. Inr [''prime_power_w'' \<mapsto> Num 8000]),
       cost_model = (\<lambda>arch scenario context. Inr [''cost_usd'' \<mapsto> Num 25600]),
       comms_model = (\<lambda>arch scenario context. Inr [''link_margin_db'' \<mapsto> Num 5]),
       special = sample_special,
       verify = RequirementSet_verify,
       perf_counter_start = 0,
       perf_counter_end = 1 / 1000 \<rparr>"

definition sample_requirements :: "Requirement list" where
  "sample_requirements =
     [\<lparr> req_id = ''REQ-SNR'', req_name = ''SNR Margin'', metric_key = ''link_margin_db'',
         req_op = Ge, req_value = 0, req_severity = Must \<rparr>,
      \<lparr> req_id = ''REQ-COST'', req_name = ''System Cost'', metric_key = ''cost_usd'',
         req_op = Le, req_value = 10000, req_severity = Should \<rparr>]"

text \<open>
  Two radar scenarios that pass the field constraints and lie outside the range that
  \<open>albersheim_snr\<close> accepts.
\<close>

definition low_pd_radar :: RadarDetectionScenario where
  "low_pd_radar = sample_radar\<lparr> pd_required := 0.05 \<rparr>"

definition high_pfa_radar :: RadarDetectionScenario where
  "high_pfa_radar = sample_radar\<lparr> pfa := 0.5 \<rparr>"

text \<open>An environment whose power model writes a key that the antenna model has written.\<close>

definition conflict_env :: Environment where
  "conflict_env = sample_env\<lparr> power_model := (\<lambda>arch scenario context. Inr [''g_peak_db'' \<mapsto> Num 0]) \<rparr>"

text \<open>An environment whose antenna model reports a scan loss beside the peak gain.\<close>

definition scan_loss_env :: Environment where
  "scan_loss_env =
     sample_env\<lparr> antenna_model :=
       (\<lambda>arch scenario context. Inr [''g_peak_db'' \<mapsto> Num 30, ''scan_loss_db'' \<mapsto> Num 3]) \<rparr>"

text \<open>
  The value of the last record of a list that holds a key: what a sequence of
  \<open>dict.update\<close> calls leaves under the key.
\<close>

definition last_writer :: "MetricsDict list \<Rightarrow> string \<Rightarrow> metric_value option" where
  "last_writer ds k = (case filter (\<lambda>d. d k \<noteq> None) ds of [] \<Rightarrow> None | d # ds' \<Rightarrow> last (d # ds') k)"

text \<open>
  The single-pulse SNR of the radar equation in dB for an antenna gain \<open>g\<close>, as
  \<open>RadarModel.evaluate\<close> computes it.
\<close>

definition radar_snr_single_db :: "Architecture \<Rightarrow> RadarDetectionScenario \<Rightarrow> real \<Rightarrow> real" where
  "radar_snr_single_db arch s g =
     10 * log 10 (tx_power_w_per_elem (rf arch) * real_of_int (n_elements (array arch)))
     + 2 * g + 2 * (10 * log 10 (C_LIGHT / freq_hz s)) + target_rcs_dbsm s
     - 4 * (10 * log 10 (range_m s))
     - (feed_loss_db (rf arch) + system_loss_db (rf arch))
     - 30 * log 10 (4 * pi)
     - (10 * log 10 (K_B * rx_noise_temp_k s * bandwidth_hz s) + noise_figure_db (rf arch))"

text \<open>
  The model of the scenario's variant: the communications link model for a communications
  scenario, the radar model for a radar scenario.
\<close>

definition scenario_model ::
  "Environment \<Rightarrow> Architecture \<Rightarrow> Scenario \<Rightarrow> MetricsDict \<Rightarrow> error + MetricsDict" where
  "scenario_model env arch scenario ctx =
     (case scenario of
        CommsScenario cs \<Rightarrow> comms_model env arch cs ctx
      | RadarScenario rs \<Rightarrow> RadarModel_evaluate (special env) arch rs ctx)"

section \<open>Integration gains\<close>

lemma coherent_integration_gain_value:
  assumes "1 \<le> n"
  shows "coherent_integration_gain n = Inr (10 * log 10 (real_of_int n))"
  using assms by (simp add: coherent_integration_gain_def math_log10_def)

lemma noncoherent_efficiency_cases:
  fixes p_d :: real
  shows "(if p_d \<ge> 0.99 then 0.7 else if p_d \<ge> 0.9 then 0.8 else if p_d \<ge> 0.5 then 0.85 else (0.9::real))
           \<in> {0.7, 0.8, 0.85, 0.9}"
  by simp

lemma noncoherent_integration_gain_value:
  assumes "1 \<le> n"
  shows "\<exists>eff \<in> {0.7, 0.8, 0.85, 0.9 :: real}.
           noncoherent_integration_gain n p_d p_fa = Inr (10 * eff * log 10 (real_of_int n))"
proof (cases "n = 1")
  case True
  then have "noncoherent_integration_gain n p_d p_fa = Inr (10 * 0.7 * log 10 (real_of_int n))"
    by (simp add: noncoherent_integration_gain_def)
  then show ?thesis by blast
next
  case False
  with assms have pos: "0 < real_of_int n" by simp
  define eff :: real where
    "eff = (if p_d \<ge> 0.99 then 0.7 else if p_d \<ge> 0.9 then 0.8 else if p_d \<ge> 0.5 then 0.85 else 0.9)"
  have mem: "eff \<in> {0.7, 0.8, 0.85, 0.9}"
    unfolding eff_def by (rule noncoherent_efficiency_cases)
  have "noncoherent_integration_gain n p_d p_fa = Inr (10 * eff * log 10 (real_of_int n))"
    using assms False pos
    by (simp add: noncoherent_integration_gain_def math_log10_def eff_def Let_def)
  with mem show ?thesis by blast
qed

lemma log10_of_pulses_nonneg:
  assumes "1 \<le> (n::int)"
  shows "0 \<le> log 10 (real_of_int n)"
proof -
  from assms have "1 \<le> real_of_int n" by simp
  then show ?thesis by simp
qed

text \<open>
  Claim C10. For every pulse count of at least one and every pd and pfa, both gain
  functions return, the non-coherent gain is at most the coherent gain, and
  \<open>integration_loss\<close> returns 0 for coherent integration and a non-negative value for
  any other integration type.
\<close>

theorem noncoherent_gain_le_coherent_gain:
  assumes "1 \<le> n"
  shows "\<exists>g_nc g_c l.
           noncoherent_integration_gain n p_d p_fa = Inr g_nc
         \<and> coherent_integration_gain n = Inr g_c
         \<and> g_nc \<le> g_c
         \<and> integration_loss n ''coherent'' p_d p_fa = Inr 0
         \<and> (itype \<noteq> ''coherent'' \<longrightarrow>
              integration_loss n itype p_d p_fa = Inr l \<and> 0 \<le> l)"
proof -
  obtain eff :: real where eff: "eff \<in> {0.7, 0.8, 0.85, 0.9}"
    and nc: "noncoherent_integration_gain n p_d p_fa = Inr (10 * eff * log 10 (real_of_int n))"
    using noncoherent_integration_gain_value [OF assms] by blast
  have c: "coherent_integration_gain n = Inr (10 * log 10 (real_of_int n))"
    by (rule coherent_integration_gain_value [OF assms])
  have L: "0 \<le> log 10 (real_of_int n)"
    by (rule log10_of_pulses_nonneg [OF assms])
  from eff have "eff \<le> 1" by auto
  then have "eff * log 10 (real_of_int n) \<le> 1 * log 10 (real_of_int n)"
    using L by (rule mult_right_mono)
  then have le: "10 * eff * log 10 (real_of_int n) \<le> 10 * log 10 (real_of_int n)"
    by simp
  have coh: "integration_loss n ''coherent'' p_d p_fa = Inr 0"
    by (simp add: integration_loss_def)
  have loss: "itype \<noteq> ''coherent'' \<longrightarrow>
      integration_loss n itype p_d p_fa
        = Inr (10 * log 10 (real_of_int n) - 10 * eff * log 10 (real_of_int n))"
    by (simp add: integration_loss_def nc c)
  from nc c le coh loss show ?thesis by fastforce
qed

theorem noncoherent_gain_le_coherent_gain_witness:
  "(1::int) \<le> 16 \<and> ''noncoherent'' \<noteq> ''coherent'' \<and> (\<exists>g_nc g_c l.
           noncoherent_integration_gain 16 0.9 (1 / 10 ^ 6) = Inr g_nc
         \<and> coherent_integration_gain 16 = Inr g_c
         \<and> g_nc \<le> g_c
         \<and> integration_loss 16 ''coherent'' 0.9 (1 / 10 ^ 6) = Inr 0
         \<and> integration_loss 16 ''noncoherent'' 0.9 (1 / 10 ^ 6) = Inr l \<and> 0 \<le> l)"
  using noncoherent_gain_le_coherent_gain [of 16 "0.9" "1 / 10 ^ 6" "''noncoherent''"] by simp

section \<open>Results of the sum type\<close>

lemma bindE_eq_Inr: "bindE m f = Inr y \<longleftrightarrow> (\<exists>x. m = Inr x \<and> f x = Inr y)"
  by (cases m) auto

lemma bindE_eq_Inl: "bindE m f = Inl e \<longleftrightarrow> (m = Inl e \<or> (\<exists>x. m = Inr x \<and> f x = Inl e))"
  by (cases m) auto

section \<open>The float range\<close>

lemma float_max_ge_pow300: "10 ^ 300 \<le> float_max"
  by (simp add: float_max_def)


lemma float_max_ge_1: "1 \<le> float_max"
  by (simp add: float_max_def)

lemma pow10_in_range:
  assumes "x \<le> 300"
  shows "10 powr x \<le> float_max"
proof -
  have "(10::real) powr x \<le> 10 powr 300" by (rule powr_mono) (use assms in simp_all)
  also have "\<dots> = 10 ^ 300" by simp
  finally show ?thesis using float_max_ge_pow300 by simp
qed

lemma pow10_returns: "10 powr x \<le> float_max \<Longrightarrow> pow10 x = Inr (10 powr x)"
  by (simp add: pow10_def)


lemma py_float_returns: "\<bar>real_of_int n\<bar> \<le> float_max \<Longrightarrow> py_float n = Inr (real_of_int n)"
  by (simp add: py_float_def)


section \<open>Detection probability\<close>

lemma swerling_factor_positive:
  assumes "0 < (s::real)"
  shows "0 < (if sw = (1::int) then (if s > 0 then 1 + 1 / s else 0)
              else if sw = 2 then (if s > 0 then 1 + 0.5 / s else 0)
              else if sw = 3 then (if s > 0 then 1 + 2 / s else 0)
              else (if s > 0 then 1 + 1 / s else 0))"
  using assms by (simp add: add_pos_pos)

lemma detection_statistic_clamped:
  fixes sw :: int
  assumes s: "0 < s" and sw: "sw \<in> {0, 1, 2, 3, 4}" and pfa: "0 < p_fa" "p_fa < 1"
      and g: "0 \<le> gammaincinv sp 1 (1 - p_fa)"
  shows "\<exists>p. bindE (compute_detection_threshold sp p_fa 1) (\<lambda>threshold.
          if sw = 0 then
            (case Some s of
               None \<Rightarrow> Inl TypeError
             | Some snr \<Rightarrow>
                 bindE (math_sqrt (2 * snr)) (\<lambda>a.
                 bindE (math_sqrt (2 * threshold)) (\<lambda>b.
                   let pd = (if a > b then 0.5 * erfc sp ((b - a) / sqrt 2)
                             else 0.5 * erfc sp ((b - a) / sqrt 2))
                   in Inr (max 0 (min 1 pd)))))
          else if sw \<in> {1, 2, 3, 4} then
            (case Some s of
               None \<Rightarrow> Inl TypeError
             | Some snr \<Rightarrow>
                 let factor =
                       (if sw = 1 then (if snr > 0 then 1 + 1 / snr else 0)
                        else if sw = 2 then (if snr > 0 then 1 + 0.5 / snr else 0)
                        else if sw = 3 then (if snr > 0 then 1 + 2 / snr else 0)
                        else (if snr > 0 then 1 + 1 / snr else 0));
                     adj_snr = (if factor > 0 then snr / factor else snr)
                 in
                 bindE (math_sqrt (2 * adj_snr)) (\<lambda>a.
                 bindE (math_sqrt (2 * threshold)) (\<lambda>b.
                   let pd = 0.5 * erfc sp ((b - a) / sqrt 2)
                   in Inr (max 0 (min 1 pd)))))
          else Inl ValueError) = Inr p \<and> 0 \<le> p \<and> p \<le> 1"
proof -
  have th: "compute_detection_threshold sp p_fa 1 = Inr (gammaincinv sp 1 (1 - p_fa))"
    using pfa by (simp add: compute_detection_threshold_def)
  show ?thesis
  proof (cases "sw = 0")
    case True
    then show ?thesis
      using s g by (simp add: Let_def th math_sqrt_def)
  next
    case False
    define factor where
      "factor = (if sw = (1::int) then (if s > 0 then 1 + 1 / s else 0)
                 else if sw = 2 then (if s > 0 then 1 + 0.5 / s else 0)
                 else if sw = 3 then (if s > 0 then 1 + 2 / s else 0)
                 else (if s > 0 then 1 + 1 / s else 0))"
    have f: "0 < factor"
      unfolding factor_def by (rule swerling_factor_positive [OF s])
    then have adj: "0 \<le> s / factor" using s by simp
    from False sw have sw': "sw = 1 \<or> sw = 2 \<or> sw = 3 \<or> sw = 4" by auto
    show ?thesis
      using g False sw' f adj
      by (simp add: Let_def th math_sqrt_def factor_def [symmetric])
  qed
qed

lemma compute_pd_from_snr_clamped:
  assumes pfa: "0 < p_fa" "p_fa < 1" and sw: "sw \<in> {0, 1, 2, 3, 4}"
      and n: "1 \<le> n" and nb: "real_of_int n \<le> float_max"
      and sb: "10 powr (snr_db / 10) \<le> float_max"
      and g: "0 \<le> gammaincinv sp 1 (1 - p_fa)"
  shows "\<exists>p. compute_pd_from_snr sp snr_db p_fa sw n itype = Inr p \<and> 0 \<le> p \<and> p \<le> 1"
proof -
  have p: "0 < (10::real) powr (snr_db / 10)" by simp
  from n have n0: "0 < real_of_int n" by simp
  then have q: "0 < real_of_int n powr 0.8" by simp
  from n nb have fl: "py_float n = Inr (real_of_int n)" by (simp add: py_float_returns)
  from n0 have nn: "(real_of_int n < 0) = False" by simp
  show ?thesis
  proof (cases "itype = ''coherent''")
    case True
    have pos: "0 < 10 powr (snr_db / 10) * real_of_int n" using p n0 by simp
    show ?thesis
      unfolding compute_pd_from_snr_def
      apply (simp only: pfa True simp_thms if_True if_False pow10_returns [OF sb] fl bindE.simps)
      apply (rule detection_statistic_clamped [OF pos sw pfa g])
      done
  next
    case False
    have pos: "0 < 10 powr (snr_db / 10) * real_of_int n powr 0.8" using p q by simp
    show ?thesis
      unfolding compute_pd_from_snr_def
      apply (simp only: pfa False nn simp_thms if_True if_False pow10_returns [OF sb] fl bindE.simps)
      apply (rule detection_statistic_clamped [OF pos sw pfa g])
      done
  qed
qed

section \<open>Pareto extraction\<close>

lemma demo_dominates_rows:
  "demo_dominates df j i = dominates demo_objectives (df ! j) (df ! i)"
  by (auto simp: demo_dominates_def dominates_def demo_objectives_def
      at_least_as_good_def strictly_better_def)

lemma dominates_irrefl: "\<not> dominates objs r r"
  by (induction objs) (auto simp: dominates_def strictly_better_def split: direction.splits)

lemma demo_inner_loop_iff:
  "demo_inner_loop df i js \<longleftrightarrow> (\<forall>j\<in>set js. \<not> (i \<noteq> j \<and> demo_dominates df j i))"
  by (induction js) auto

lemma demo_inner_loop_rows:
  assumes "i < length df"
  shows "demo_inner_loop df i [0..<length df]
           \<longleftrightarrow> \<not> list_ex (\<lambda>rj. dominates demo_objectives rj (df ! i)) df"
proof -
  have "demo_inner_loop df i [0..<length df]
          \<longleftrightarrow> (\<forall>j<length df. \<not> dominates demo_objectives (df ! j) (df ! i))"
    using dominates_irrefl [of demo_objectives "df ! i"]
    by (auto simp: demo_inner_loop_iff demo_dominates_rows)
  also have "\<dots> \<longleftrightarrow> (\<forall>rj\<in>set df. \<not> dominates demo_objectives rj (df ! i))"
    by (metis in_set_conv_nth)
  finally show ?thesis by (simp add: list_ex_iff)
qed

lemma select_by_flags: "map fst (filter snd (zip xs (map Q xs))) = filter Q xs"
  by (induction xs) auto

lemma demo_is_pareto_rows:
  "demo_is_pareto df = map (\<lambda>ri. \<not> list_ex (\<lambda>rj. dominates demo_objectives rj ri) df) df"
proof -
  have "demo_is_pareto df
          = map (\<lambda>i. \<not> list_ex (\<lambda>rj. dominates demo_objectives rj (df ! i)) df) [0..<length df]"
    unfolding demo_is_pareto_def by (rule map_cong) (auto simp: demo_inner_loop_rows)
  also have "\<dots> = map (\<lambda>ri. \<not> list_ex (\<lambda>rj. dominates demo_objectives rj ri) df)
                      (map ((!) df) [0..<length df])"
    by simp
  finally show ?thesis by (simp only: map_nth)
qed

lemma demo_pareto_df_rows: "demo_pareto_df df = non_dominated demo_objectives df"
  by (simp add: demo_pareto_df_def demo_is_pareto_rows select_by_flags non_dominated_def)

lemma non_dominated_subset: "set (non_dominated objs xs) \<subseteq> set xs"
  by (auto simp: non_dominated_def)

lemma non_dominated_free:
  assumes "ri \<in> set (non_dominated objs xs)" and "rj \<in> set (non_dominated objs xs)"
  shows "\<not> dominates objs rj ri"
  using assms by (auto simp: non_dominated_def list_ex_iff)

lemma non_dominated_idem: "non_dominated objs (non_dominated objs xs) = non_dominated objs xs"
proof -
  have "\<forall>ri\<in>set (non_dominated objs xs).
          \<not> list_ex (\<lambda>rj. dominates objs rj ri) (non_dominated objs xs)"
    using non_dominated_free by (auto simp: list_ex_iff)
  then show ?thesis
    by (subst (1) non_dominated_def) (simp add: filter_id_conv)
qed

lemma extract_pareto_non_dominated:
  "extract_pareto objs results = non_dominated objs (filter (\<lambda>r. meta_error r = None) results)"
  by (simp add: extract_pareto_def non_dominated_def Let_def)

lemma extract_pareto_error_free:
  "r \<in> set (extract_pareto objs results) \<Longrightarrow> meta_error r = None"
  using non_dominated_subset [of objs "filter (\<lambda>r. meta_error r = None) results"]
  by (auto simp: extract_pareto_non_dominated)

lemma extract_pareto_idem:
  "extract_pareto objs (extract_pareto objs results) = extract_pareto objs results"
proof -
  have "filter (\<lambda>r. meta_error r = None) (extract_pareto objs results) = extract_pareto objs results"
    using extract_pareto_error_free by (simp add: filter_id_conv)
  then have "extract_pareto objs (extract_pareto objs results)
               = non_dominated objs (extract_pareto objs results)"
    by (subst extract_pareto_non_dominated) simp
  then show ?thesis by (simp add: extract_pareto_non_dominated non_dominated_idem)
qed

lemma demo_pareto_df_free:
  assumes "i < length (demo_pareto_df df)" and "j < length (demo_pareto_df df)"
  shows "\<not> demo_dominates (demo_pareto_df df) j i"
  using assms
    non_dominated_free [of "demo_pareto_df df ! i" demo_objectives df "demo_pareto_df df ! j"]
  by (simp add: demo_dominates_rows demo_pareto_df_rows)

lemma demo_pareto_df_is_extract_pareto:
  assumes "\<forall>r\<in>set df. meta_error r = None"
  shows "demo_pareto_df df = extract_pareto demo_objectives df"
  using assms by (simp add: demo_pareto_df_rows extract_pareto_non_dominated filter_id_conv)

lemma sample_results_frontier:
  "extract_pareto demo_objectives sample_results
     = [result_row 100 40 None, result_row 200 50 None]"
  by (simp add: extract_pareto_def sample_results_def demo_objectives_def result_row_def
      dominates_def at_least_as_good_def strictly_better_def)

lemma sample_results_demo_frontier:
  "demo_pareto_df (take 3 sample_results) = [result_row 100 40 None, result_row 200 50 None]"
  by (simp add: demo_pareto_df_def demo_is_pareto_def sample_results_def result_row_def
      demo_dominates_def upt_rec)

text \<open>
  Claim C3. For every results table and every list of objectives, no row of the output of
  \<open>extract_pareto\<close> is dominated by a row of the same output, and extracting again from
  the output returns the output; the same holds of the demonstration loop of the trade
  study page, whose objectives are fixed (minimise cost, maximise EIRP): no row of its
  output is dominated by a row of its output, neither by the condition of the loop nor
  by the dominance relation for these two objectives, and running the loop on its output
  returns the output.
\<close>

theorem pareto_frontier_non_dominated_idempotent:
  "(\<forall>ri\<in>set (extract_pareto objs results). \<forall>rj\<in>set (extract_pareto objs results).
       \<not> dominates objs rj ri)
   \<and> extract_pareto objs (extract_pareto objs results) = extract_pareto objs results
   \<and> (\<forall>i<length (demo_pareto_df df). \<forall>j<length (demo_pareto_df df).
        \<not> demo_dominates (demo_pareto_df df) j i)
   \<and> demo_pareto_df (demo_pareto_df df) = demo_pareto_df df
   \<and> (\<forall>ri\<in>set (demo_pareto_df df). \<forall>rj\<in>set (demo_pareto_df df).
        \<not> dominates demo_objectives rj ri)"
proof (intro conjI)
  show "\<forall>ri\<in>set (extract_pareto objs results). \<forall>rj\<in>set (extract_pareto objs results).
          \<not> dominates objs rj ri"
    unfolding extract_pareto_non_dominated using non_dominated_free by blast
  show "extract_pareto objs (extract_pareto objs results) = extract_pareto objs results"
    by (rule extract_pareto_idem)
  show "\<forall>i<length (demo_pareto_df df). \<forall>j<length (demo_pareto_df df).
          \<not> demo_dominates (demo_pareto_df df) j i"
    using demo_pareto_df_free by blast
  show "demo_pareto_df (demo_pareto_df df) = demo_pareto_df df"
    by (simp add: demo_pareto_df_rows non_dominated_idem)
  show "\<forall>ri\<in>set (demo_pareto_df df). \<forall>rj\<in>set (demo_pareto_df df).
          \<not> dominates demo_objectives rj ri"
    unfolding demo_pareto_df_rows using non_dominated_free by blast
qed

theorem pareto_frontier_non_dominated_idempotent_witness:
  "result_row 100 40 None \<in> set (extract_pareto demo_objectives sample_results)
   \<and> result_row 200 50 None \<in> set (extract_pareto demo_objectives sample_results)
   \<and> \<not> dominates demo_objectives (result_row 200 50 None) (result_row 100 40 None)
   \<and> extract_pareto demo_objectives (extract_pareto demo_objectives sample_results)
       = extract_pareto demo_objectives sample_results
   \<and> 0 < length (demo_pareto_df (take 3 sample_results))
   \<and> 1 < length (demo_pareto_df (take 3 sample_results))
   \<and> \<not> demo_dominates (demo_pareto_df (take 3 sample_results)) 1 0
   \<and> demo_pareto_df (demo_pareto_df (take 3 sample_results))
       = demo_pareto_df (take 3 sample_results)
   \<and> result_row 100 40 None \<in> set (demo_pareto_df (take 3 sample_results))
   \<and> result_row 200 50 None \<in> set (demo_pareto_df (take 3 sample_results))
   \<and> \<not> dominates demo_objectives (result_row 100 40 None) (result_row 200 50 None)"
proof -
  note T = pareto_frontier_non_dominated_idempotent
             [of demo_objectives sample_results "take 3 sample_results"]
  have m1: "result_row 100 40 None \<in> set (extract_pareto demo_objectives sample_results)"
    and m2: "result_row 200 50 None \<in> set (extract_pareto demo_objectives sample_results)"
    by (simp_all add: sample_results_frontier)
  have l0: "0 < length (demo_pareto_df (take 3 sample_results))"
    and l1: "1 < length (demo_pareto_df (take 3 sample_results))"
    by (simp_all add: sample_results_demo_frontier)
  from T have a: "\<forall>ri\<in>set (extract_pareto demo_objectives sample_results).
                    \<forall>rj\<in>set (extract_pareto demo_objectives sample_results).
                      \<not> dominates demo_objectives rj ri"
    by (rule conjunct1)
  from T have b: "extract_pareto demo_objectives (extract_pareto demo_objectives sample_results)
                    = extract_pareto demo_objectives sample_results"
    by (rule conjunct1 [OF conjunct2])
  from T have c: "\<forall>i<length (demo_pareto_df (take 3 sample_results)).
                    \<forall>j<length (demo_pareto_df (take 3 sample_results)).
                      \<not> demo_dominates (demo_pareto_df (take 3 sample_results)) j i"
    by (rule conjunct1 [OF conjunct2 [OF conjunct2]])
  from T have d: "demo_pareto_df (demo_pareto_df (take 3 sample_results))
                    = demo_pareto_df (take 3 sample_results)"
    by (rule conjunct1 [OF conjunct2 [OF conjunct2 [OF conjunct2]]])
  from T have d': "\<forall>ri\<in>set (demo_pareto_df (take 3 sample_results)).
                    \<forall>rj\<in>set (demo_pareto_df (take 3 sample_results)).
                      \<not> dominates demo_objectives rj ri"
    by (rule conjunct2 [OF conjunct2 [OF conjunct2 [OF conjunct2]]])
  have n1: "result_row 100 40 None \<in> set (demo_pareto_df (take 3 sample_results))"
    and n2: "result_row 200 50 None \<in> set (demo_pareto_df (take 3 sample_results))"
    by (simp_all add: sample_results_demo_frontier)
  have e': "\<not> dominates demo_objectives (result_row 100 40 None) (result_row 200 50 None)"
    by (rule d' [rule_format, OF n2 n1])
  have e: "\<not> dominates demo_objectives (result_row 200 50 None) (result_row 100 40 None)"
    by (rule a [rule_format, OF m1 m2])
  have f: "\<not> demo_dominates (demo_pareto_df (take 3 sample_results)) 1 0"
    by (rule c [rule_format, OF l0 l1])
  from m1 m2 e b l0 l1 f d n1 n2 e' show ?thesis by blast
qed

section \<open>The radar model\<close>

lemma W_TO_DBW_pos: "0 < w \<Longrightarrow> W_TO_DBW w = Inr (10 * log 10 w)"
  by (simp add: W_TO_DBW_def math_log10_def)

lemma integration_gain_returns:
  assumes "1 \<le> n"
  shows "\<exists>g. (if itype = ''coherent'' then coherent_integration_gain n
              else noncoherent_integration_gain n p_d p_fa) = Inr g
           \<and> g \<le> 10 * log 10 (real_of_int n)"
proof -
  obtain eff :: real where eff: "eff \<in> {0.7, 0.8, 0.85, 0.9}"
    and nc: "noncoherent_integration_gain n p_d p_fa = Inr (10 * eff * log 10 (real_of_int n))"
    using noncoherent_integration_gain_value [OF assms] by blast
  have c: "coherent_integration_gain n = Inr (10 * log 10 (real_of_int n))"
    by (rule coherent_integration_gain_value [OF assms])
  have L: "0 \<le> log 10 (real_of_int n)"
    by (rule log10_of_pulses_nonneg [OF assms])
  from eff have "eff \<le> 1" by auto
  then have "eff * log 10 (real_of_int n) \<le> 1 * log 10 (real_of_int n)"
    using L by (rule mult_right_mono)
  then have "10 * eff * log 10 (real_of_int n) \<le> 10 * log 10 (real_of_int n)" by simp
  with nc c show ?thesis by auto
qed

lemma albersheim_log_argument_ge:
  assumes "1 \<le> (A::real)" and "0 \<le> (B::real)"
  shows "1 \<le> A + 0.12 * A * B + 1.7 * B"
proof -
  have "0 \<le> 0.12 * A * B" using assms by simp
  moreover have "0 \<le> 1.7 * B" using assms by simp
  ultimately show ?thesis using assms by linarith
qed

lemma albersheim_snr_single_pulse:
  assumes pd: "0.5 \<le> p_d" "p_d \<le> 0.9999"
      and pfa: "1 / 10 ^ 10 \<le> p_fa" "p_fa \<le> 0.1"
  shows "\<exists>v. albersheim_snr p_d p_fa 1 = Inr v \<and> 0 \<le> v"
proof -
  from pfa have pfa0: "0 < p_fa" by (smt (verit) zero_less_divide_1_iff zero_less_power)
  then have q: "3 \<le> 0.62 / p_fa" using pfa by (simp add: pos_le_divide_eq)
  from pfa0 have q0: "0 < 0.62 / p_fa" by simp
  have e3: "exp 1 \<le> 0.62 / p_fa" using exp_le q by (rule order_trans)
  have "ln (exp 1) \<le> ln (0.62 / p_fa)"
    by (rule ln_mono [OF e3 exp_gt_zero])
  then have A: "1 \<le> ln (0.62 / p_fa)" by simp
  from pd have r: "1 \<le> p_d / (1 - p_d)" by simp
  then have B: "0 \<le> ln (p_d / (1 - p_d))" by (rule ln_ge_zero)
  have arg: "1 \<le> ln (0.62 / p_fa) + 0.12 * ln (0.62 / p_fa) * ln (p_d / (1 - p_d))
                 + 1.7 * ln (p_d / (1 - p_d))"
    by (rule albersheim_log_argument_ge [OF A B])
  then have arg0: "0 < ln (0.62 / p_fa) + 0.12 * ln (0.62 / p_fa) * ln (p_d / (1 - p_d))
                 + 1.7 * ln (p_d / (1 - p_d))" by linarith
  have lg: "0 \<le> log 10 (ln (0.62 / p_fa) + 0.12 * ln (0.62 / p_fa) * ln (p_d / (1 - p_d))
                 + 1.7 * ln (p_d / (1 - p_d)))"
    using arg by simp
  have sq: "0 < sqrt (1 + 0.44 :: real)" by simp
  have co: "0 \<le> 6.2 + 4.54 / sqrt (1 + 0.44 :: real)" by simp
  have v: "0 \<le> (6.2 + 4.54 / sqrt (1 + 0.44 :: real))
               * log 10 (ln (0.62 / p_fa) + 0.12 * ln (0.62 / p_fa) * ln (p_d / (1 - p_d))
                 + 1.7 * ln (p_d / (1 - p_d)))"
    using co lg by (rule mult_nonneg_nonneg)
  from pd have r0: "0 < p_d / (1 - p_d)" by simp
  from pd have d: "1 - p_d \<noteq> 0" by simp
  have fl: "py_float 1 = Inr 1" using float_max_ge_1 by (simp add: py_float_def)
  have "albersheim_snr p_d p_fa 1
          = Inr (- 5 * 0 + (6.2 + 4.54 / sqrt (1 + 0.44))
               * log 10 (ln (0.62 / p_fa) + 0.12 * ln (0.62 / p_fa) * ln (p_d / (1 - p_d))
                 + 1.7 * ln (p_d / (1 - p_d))))"
    using pd pfa pfa0 q0 r0 d arg0
    by (simp add: albersheim_snr_def py_div_def math_log_def math_log10_def math_sqrt_def fl)
  with v show ?thesis by simp
qed

lemma albersheim_snr_rejects:
  assumes "\<not> (0.1 \<le> p_d \<and> p_d \<le> 0.9999) \<or> \<not> (1 / 10 ^ 10 \<le> p_fa \<and> p_fa \<le> 0.1)"
  shows "albersheim_snr p_d p_fa n = Inl ValueError"
  using assms by (auto simp: albersheim_snr_def)

lemma bindE_returns_with:
  assumes "\<exists>v. m = Inr v \<and> Q v" and "\<And>v. Q v \<Longrightarrow> \<exists>y. f v = Inr y \<and> P y"
  shows "\<exists>y. bindE m f = Inr y \<and> P y"
  using assms by (auto simp: bindE_eq_Inr)

lemma bindE_raises_after:
  assumes "\<exists>v. m = Inr v \<and> Q v" and "\<And>v. f v = Inl e"
  shows "bindE m f = Inl e"
  using assms by auto

lemma radar_g_ant_stage:
  assumes "ctx ''g_peak_db'' = Some (Num g)"
      and "ctx ''scan_loss_db'' = None \<or> ctx ''scan_loss_db'' = Some (Num l)"
  shows "(case ctx ''g_peak_db'' of
              Some g \<Rightarrow>
                (case ctx ''scan_loss_db'' of
                   Some l \<Rightarrow> py_sub g l
                 | None \<Rightarrow> Inr g)
            | None \<Rightarrow> X) = Inr (Num (if ctx ''scan_loss_db'' = None then g else g - l))"
  using assms by (auto simp: py_sub_def)

lemma compute_pd_radar_returns:
  assumes "0 < p_fa" and "p_fa < 1" and "0 \<le> gammaincinv sp 1 (1 - p_fa)" and "x \<le> 3000"
  shows "\<exists>p. compute_pd_from_snr sp x p_fa 0 1 ''coherent'' = Inr p \<and> True"
proof -
  have one: "real_of_int 1 \<le> float_max" using float_max_ge_1 by simp
  from assms(4) have "x / 10 \<le> 300" by simp
  then have sb: "10 powr (x / 10) \<le> float_max" by (rule pow10_in_range)
  from compute_pd_from_snr_clamped [OF assms(1,2) _ _ one sb assms(3), of 0 "''coherent''"]
  show ?thesis by auto
qed

lemma detection_range_returns:
  assumes "m' \<le> 12000"
  shows "\<exists>d. (if c then bindE (pow10 (m' / 40)) (\<lambda>p. Inr (r * p)) else Inr 0) = Inr d \<and> True"
proof (cases c)
  case True
  from assms have "m' / 40 \<le> 300" by simp
  then have "pow10 (m' / 40) = Inr (10 powr (m' / 40))"
    by (intro pow10_returns pow10_in_range)
  with True show ?thesis by simp
next
  case False
  then show ?thesis by simp
qed

lemma RadarModel_evaluate_returns:
  assumes g: "ctx ''g_peak_db'' = Some (Num g)"
      and l: "ctx ''scan_loss_db'' = None \<or> ctx ''scan_loss_db'' = Some (Num l)"
      and ne: "\<bar>real_of_int (n_elements (array arch))\<bar> \<le> float_max"
      and p: "0 < tx_power_w_per_elem (rf arch) * real_of_int (n_elements (array arch))"
      and f: "0 < freq_hz s" and r: "0 < range_m s"
      and rc: "target_rcs_dbsm s \<le> 3000"
      and t: "0 < rx_noise_temp_k s" and b: "0 < bandwidth_hz s"
      and n: "1 \<le> n_pulses s"
      and pd: "0.5 \<le> pd_required s" "pd_required s \<le> 0.9999"
      and pfa: "1 / 10 ^ 10 \<le> pfa s" "pfa s \<le> 0.1"
      and th: "0 \<le> gammaincinv sp 1 (1 - pfa s)"
      and sb: "radar_snr_single_db arch s (if ctx ''scan_loss_db'' = None then g else g - l)
                 + 10 * log 10 (real_of_int (n_pulses s)) \<le> 3000"
  shows "\<exists>rm. RadarModel_evaluate sp arch s ctx = Inr rm
            \<and> rm ''g_ant_db'' = Some (Num (if ctx ''scan_loss_db'' = None then g else g - l))"
proof -
  have w: "0 < C_LIGHT / freq_hz s" using f by (simp add: C_LIGHT_def)
  have f0: "freq_hz s \<noteq> 0" using f by simp
  have np: "0 < K_B * rx_noise_temp_k s * bandwidth_hz s" using t b by (simp add: K_B_def)
  have pfa0: "0 < pfa s" using pfa by (smt (verit) zero_less_divide_1_iff zero_less_power)
  have pfa1: "pfa s < 1" using pfa by simp
  have rcs: "pow10 (target_rcs_dbsm s / 10) = Inr (10 powr (target_rcs_dbsm s / 10))"
    using rc by (intro pow10_returns pow10_in_range) simp
  show ?thesis
    unfolding RadarModel_evaluate_def radar_g_ant_stage [OF g l]
    apply (simp add: py_float_returns [OF ne] W_TO_DBW_pos [OF p] W_TO_DBW_pos [OF np] py_div_def f0
        math_log10_def w r rcs as_float_def Let_def del: fun_upd_apply split del: if_split)
    apply (rule bindE_returns_with [where Q = "\<lambda>v. v \<le> 10 * log 10 (real_of_int (n_pulses s))"])
     apply (rule integration_gain_returns [OF n])
    apply (rule bindE_returns_with [where Q = "\<lambda>v. 0 \<le> v"])
     apply (rule albersheim_snr_single_pulse [OF pd pfa])
    apply (rule bindE_returns_with [where Q = "\<lambda>v. True"])
     apply (rule compute_pd_radar_returns [OF pfa0 pfa1 th])
    using sb apply (simp add: radar_snr_single_db_def)
    apply (rule bindE_returns_with [where Q = "\<lambda>v. True"])
     apply (rule detection_range_returns)
    using sb apply (simp add: radar_snr_single_db_def)
    apply simp
    done
qed

lemma RadarModel_evaluate_albersheim_raises:
  assumes g: "ctx ''g_peak_db'' = Some (Num g)"
      and l: "ctx ''scan_loss_db'' = None \<or> ctx ''scan_loss_db'' = Some (Num l)"
      and ne: "\<bar>real_of_int (n_elements (array arch))\<bar> \<le> float_max"
      and p: "0 < tx_power_w_per_elem (rf arch) * real_of_int (n_elements (array arch))"
      and f: "0 < freq_hz s" and r: "0 < range_m s"
      and rc: "target_rcs_dbsm s \<le> 3000"
      and t: "0 < rx_noise_temp_k s" and b: "0 < bandwidth_hz s"
      and n: "1 \<le> n_pulses s"
      and a: "albersheim_snr (pd_required s) (pfa s) 1 = Inl e"
  shows "RadarModel_evaluate sp arch s ctx = Inl e"
proof -
  have w: "0 < C_LIGHT / freq_hz s" using f by (simp add: C_LIGHT_def)
  have f0: "freq_hz s \<noteq> 0" using f by simp
  have np: "0 < K_B * rx_noise_temp_k s * bandwidth_hz s" using t b by (simp add: K_B_def)
  have rcs: "pow10 (target_rcs_dbsm s / 10) = Inr (10 powr (target_rcs_dbsm s / 10))"
    using rc by (intro pow10_returns pow10_in_range) simp
  show ?thesis
    unfolding RadarModel_evaluate_def radar_g_ant_stage [OF g l]
    apply (simp add: py_float_returns [OF ne] W_TO_DBW_pos [OF p] W_TO_DBW_pos [OF np] py_div_def f0
        math_log10_def w r rcs as_float_def Let_def del: fun_upd_apply split del: if_split)
    apply (rule bindE_raises_after)
     apply (rule integration_gain_returns [OF n])
    apply (simp add: a)
    done
qed

lemma RadarModel_evaluate_g_ant_db:
  assumes "RadarModel_evaluate sp arch s ctx = Inr rm"
      and g: "ctx ''g_peak_db'' = Some (Num g)"
      and l: "ctx ''scan_loss_db'' = None \<or> ctx ''scan_loss_db'' = Some (Num l)"
  shows "rm ''g_ant_db'' = Some (Num (if ctx ''scan_loss_db'' = None then g else g - l))"
  using assms(1) unfolding RadarModel_evaluate_def radar_g_ant_stage [OF g l]
  by (auto simp: bindE_eq_Inr Let_def as_float_def)

section \<open>evaluate\_case\<close>

lemma evaluate_case_returns:
  assumes "antenna_model env arch scenario Map.empty = Inr am"
      and "power_model env arch scenario am = Inr pm"
      and "cost_model env arch scenario am = Inr cm"
      and "snd (evaluate_case_scenario env arch scenario am) = Inr sm"
      and "snd (evaluate_case_verify env reqs (case_id_metrics cid ++ am ++ pm ++ cm ++ sm)) = Inr vm"
  shows "evaluate_case env arch scenario reqs cid
           = ([AntennaCall Map.empty, PowerCall am, CostCall am,
               fst (evaluate_case_scenario env arch scenario am)]
                @ fst (evaluate_case_verify env reqs (case_id_metrics cid ++ am ++ pm ++ cm ++ sm)),
              Inr (vm(''meta.runtime_s'' \<mapsto> runtime_s env)))"
  using assms by (simp add: evaluate_case_def Let_def case_id_metrics_def runtime_s_def)

lemma evaluate_case_Inr:
  assumes "snd (evaluate_case env arch scenario reqs cid) = Inr m"
  shows "\<exists>am pm cm sm vm.
           antenna_model env arch scenario Map.empty = Inr am
         \<and> power_model env arch scenario am = Inr pm
         \<and> cost_model env arch scenario am = Inr cm
         \<and> snd (evaluate_case_scenario env arch scenario am) = Inr sm
         \<and> snd (evaluate_case_verify env reqs (case_id_metrics cid ++ am ++ pm ++ cm ++ sm)) = Inr vm
         \<and> m = vm(''meta.runtime_s'' \<mapsto> runtime_s env)"
  using assms
  by (auto simp: evaluate_case_def Let_def case_id_metrics_def runtime_s_def split: sum.splits)

lemma evaluate_case_Inl:
  assumes "snd (evaluate_case env arch scenario reqs cid) = Inl e"
  shows "antenna_model env arch scenario Map.empty = Inl e
       \<or> (\<exists>am. antenna_model env arch scenario Map.empty = Inr am
            \<and> (power_model env arch scenario am = Inl e
               \<or> (\<exists>pm. power_model env arch scenario am = Inr pm
                    \<and> (cost_model env arch scenario am = Inl e
                       \<or> (\<exists>cm. cost_model env arch scenario am = Inr cm
                            \<and> (snd (evaluate_case_scenario env arch scenario am) = Inl e
                               \<or> (\<exists>sm. snd (evaluate_case_scenario env arch scenario am) = Inr sm
                                    \<and> snd (evaluate_case_verify env reqs
                                            (case_id_metrics cid ++ am ++ pm ++ cm ++ sm)) = Inl e)))))))"
  using assms
  by (auto simp: evaluate_case_def Let_def case_id_metrics_def split: sum.splits)

lemma evaluate_case_scenario_fst:
  "fst (evaluate_case_scenario env arch scenario am)
     = (case scenario of CommsScenario _ \<Rightarrow> CommsCall am | RadarScenario _ \<Rightarrow> RadarCall am)"
  by (simp add: evaluate_case_scenario_def split: Scenario.splits)

lemma evaluate_case_verify_calls:
  "fst (evaluate_case_verify env reqs m) = [] \<or> fst (evaluate_case_verify env reqs m) = [VerifyCall m]"
  by (simp add: evaluate_case_verify_def split: option.splits)

lemma evaluate_case_verify_preserves:
  assumes "snd (evaluate_case_verify env reqs m) = Inr vm" and "k \<notin> verification_keys"
  shows "vm k = m k"
  using assms
  by (auto simp: evaluate_case_verify_def verification_keys_def bindE_eq_Inr
      split: option.splits if_splits)

lemma evaluate_case_calls:
  "fst (evaluate_case env arch scenario reqs cid) =
     (case antenna_model env arch scenario Map.empty of
        Inl e \<Rightarrow> [AntennaCall Map.empty]
      | Inr am \<Rightarrow>
          (case power_model env arch scenario am of
             Inl e \<Rightarrow> take 2 (pipeline_order scenario am)
           | Inr pm \<Rightarrow>
               (case cost_model env arch scenario am of
                  Inl e \<Rightarrow> take 3 (pipeline_order scenario am)
                | Inr cm \<Rightarrow>
                    (case snd (evaluate_case_scenario env arch scenario am) of
                       Inl e \<Rightarrow> pipeline_order scenario am
                     | Inr sm \<Rightarrow> pipeline_order scenario am
                         @ fst (evaluate_case_verify env reqs (case_id_metrics cid ++ am ++ pm ++ cm ++ sm))))))"
  by (simp add: evaluate_case_def Let_def pipeline_order_def evaluate_case_scenario_fst
      case_id_metrics_def split: sum.splits)

section \<open>Concrete evaluations\<close>


lemma log10_le_nat:
  assumes "0 < x" and "x \<le> 10 ^ k"
  shows "log 10 x \<le> real k"
proof -
  have "log 10 x \<le> log 10 (10 ^ k)"
    by (subst log_le_cancel_iff) (use assms in simp_all)
  then show ?thesis by simp
qed

lemma log10_ge_neg_nat:
  assumes "1 / 10 ^ k \<le> x"
  shows "- real k \<le> log 10 x"
proof -
  have p: "(0::real) < 1 / 10 ^ k" by simp
  with assms have x: "0 < x" by linarith
  have "log 10 (1 / 10 ^ k) \<le> log 10 x"
    by (subst log_le_cancel_iff) (use p x assms in simp_all)
  moreover have "log 10 (1 / 10 ^ k :: real) = - real k" by (simp add: log_divide)
  ultimately show ?thesis by simp
qed

lemma sample_snr_bound:
  assumes "g \<le> 1000"
  shows "radar_snr_single_db sample_arch sample_radar g
           + 10 * log 10 (real_of_int (n_pulses sample_radar)) \<le> 3000"
proof -
  have "log 10 (2560 :: real) \<le> real 4" by (rule log10_le_nat) simp_all
  then have a: "log 10 (2560 :: real) \<le> 4" by simp
  have "log 10 (C_LIGHT / 10000000000) \<le> real 0"
    by (rule log10_le_nat) (simp_all add: C_LIGHT_def)
  then have b: "log 10 (C_LIGHT / 10000000000) \<le> 0" by simp
  have c: "0 \<le> log 10 (50000 :: real)" by simp
  have "(1::real) \<le> 4 * pi" using pi_ge_two by linarith
  then have d: "0 \<le> log 10 (4 * pi)" by simp
  have "- real 15 \<le> log 10 (290000000 * K_B)"
    by (rule log10_ge_neg_nat) (simp add: K_B_def)
  then have e: "- 15 \<le> log 10 (290000000 * K_B)" by simp
  have eq: "radar_snr_single_db sample_arch sample_radar g
              + 10 * log 10 (real_of_int (n_pulses sample_radar))
            = 10 * log 10 2560 + 2 * g + 20 * log 10 (C_LIGHT / 10000000000)
              - 40 * log 10 50000 - 30 * log 10 (4 * pi) - 10 * log 10 (290000000 * K_B) + 6"
    by (simp add: radar_snr_single_db_def sample_arch_def sample_radar_def)
  show ?thesis unfolding eq using assms a b c d e by linarith
qed

lemma sample_radar_returns:
  assumes "ctx ''g_peak_db'' = Some (Num g)"
      and "ctx ''scan_loss_db'' = None \<or> ctx ''scan_loss_db'' = Some (Num l)"
      and "g \<le> 1000" and "g - l \<le> 1000"
  shows "\<exists>rm. RadarModel_evaluate sample_special sample_arch sample_radar ctx = Inr rm
            \<and> rm ''g_ant_db'' = Some (Num (if ctx ''scan_loss_db'' = None then g else g - l))"
proof (rule RadarModel_evaluate_returns [OF assms(1,2)])
  show "radar_snr_single_db sample_arch sample_radar (if ctx ''scan_loss_db'' = None then g else g - l)
          + 10 * log 10 (real_of_int (n_pulses sample_radar)) \<le> 3000"
    by (rule sample_snr_bound) (use assms(3,4) in simp)
  show "\<bar>real_of_int (n_elements (array sample_arch))\<bar> \<le> float_max"
    using float_max_ge_pow300 by (simp add: sample_arch_def)
qed (simp_all add: sample_arch_def sample_radar_def sample_special_def)

lemma low_pd_radar_raises:
  assumes "ctx ''g_peak_db'' = Some (Num g)"
      and "ctx ''scan_loss_db'' = None \<or> ctx ''scan_loss_db'' = Some (Num l)"
  shows "RadarModel_evaluate sp sample_arch low_pd_radar ctx = Inl ValueError"
proof (rule RadarModel_evaluate_albersheim_raises [OF assms])
  show "\<bar>real_of_int (n_elements (array sample_arch))\<bar> \<le> float_max"
    using float_max_ge_pow300 by (simp add: sample_arch_def)
qed (simp_all add: sample_arch_def sample_radar_def low_pd_radar_def albersheim_snr_def)

lemma high_pfa_radar_raises:
  assumes "ctx ''g_peak_db'' = Some (Num g)"
      and "ctx ''scan_loss_db'' = None \<or> ctx ''scan_loss_db'' = Some (Num l)"
  shows "RadarModel_evaluate sp sample_arch high_pfa_radar ctx = Inl ValueError"
proof (rule RadarModel_evaluate_albersheim_raises [OF assms])
  show "\<bar>real_of_int (n_elements (array sample_arch))\<bar> \<le> float_max"
    using float_max_ge_pow300 by (simp add: sample_arch_def)
qed (simp_all add: sample_arch_def sample_radar_def high_pfa_radar_def albersheim_snr_def)

lemma sample_env_models:
  "antenna_model sample_env arch scenario ctx = Inr [''g_peak_db'' \<mapsto> Num 30]"
  "power_model sample_env arch scenario ctx = Inr [''prime_power_w'' \<mapsto> Num 8000]"
  "cost_model sample_env arch scenario ctx = Inr [''cost_usd'' \<mapsto> Num 25600]"
  "comms_model sample_env arch cs ctx = Inr [''link_margin_db'' \<mapsto> Num 5]"
  "special sample_env = sample_special"
  "verify sample_env = RequirementSet_verify"
  by (simp_all add: sample_env_def)

lemma evaluate_case_scenario_radar:
  "snd (evaluate_case_scenario env arch (RadarScenario s) ctx) = RadarModel_evaluate (special env) arch s ctx"
  by (simp add: evaluate_case_scenario_def)

lemma evaluate_case_scenario_comms:
  "snd (evaluate_case_scenario env arch (CommsScenario s) ctx) = comms_model env arch s ctx"
  by (simp add: evaluate_case_scenario_def)

lemma evaluate_case_verify_None: "evaluate_case_verify env None m = ([], Inr m)"
  by (simp add: evaluate_case_verify_def)

lemma evaluate_case_verify_empty: "evaluate_case_verify env (Some []) m = ([], Inr m)"
  by (simp add: evaluate_case_verify_def)

lemma sample_radar_evaluates:
  "\<exists>m. snd (evaluate_case sample_env sample_arch (RadarScenario sample_radar) None None) = Inr m
       \<and> m ''g_ant_db'' = Some (Num 30)"
proof -
  obtain rm where rm: "RadarModel_evaluate sample_special sample_arch sample_radar [''g_peak_db'' \<mapsto> Num 30] = Inr rm"
    and g: "rm ''g_ant_db'' = Some (Num 30)"
    using sample_radar_returns [of "[''g_peak_db'' \<mapsto> Num 30]" 30 0] by auto
  have "evaluate_case sample_env sample_arch (RadarScenario sample_radar) None None
          = ([AntennaCall Map.empty, PowerCall [''g_peak_db'' \<mapsto> Num 30], CostCall [''g_peak_db'' \<mapsto> Num 30],
               fst (evaluate_case_scenario sample_env sample_arch (RadarScenario sample_radar) [''g_peak_db'' \<mapsto> Num 30])]
                @ fst (evaluate_case_verify sample_env None
                     (case_id_metrics None ++ [''g_peak_db'' \<mapsto> Num 30] ++ [''prime_power_w'' \<mapsto> Num 8000]
                        ++ [''cost_usd'' \<mapsto> Num 25600] ++ rm)),
              Inr ((case_id_metrics None ++ [''g_peak_db'' \<mapsto> Num 30] ++ [''prime_power_w'' \<mapsto> Num 8000]
                        ++ [''cost_usd'' \<mapsto> Num 25600] ++ rm)(''meta.runtime_s'' \<mapsto> runtime_s sample_env)))"
    by (rule evaluate_case_returns)
       (simp_all add: sample_env_models evaluate_case_scenario_radar rm evaluate_case_verify_None)
  then show ?thesis using g by (simp add: map_add_def)
qed

section \<open>Range of the detection probability\<close>






section \<open>The merged record\<close>

lemma last_writer_merge:
  "last_writer [a, b, c, d, e] k = (a ++ b ++ c ++ d ++ e) k"
  by (auto simp: last_writer_def map_add_def split: option.splits)

lemma evaluate_case_record:
  assumes "snd (evaluate_case env arch scenario reqs cid) = Inr m"
      and "antenna_model env arch scenario Map.empty = Inr am"
      and "power_model env arch scenario am = Inr pm"
      and "cost_model env arch scenario am = Inr cm"
      and "snd (evaluate_case_scenario env arch scenario am) = Inr sm"
      and "k \<notin> verification_keys" and "k \<noteq> ''meta.runtime_s''"
  shows "m k = (case_id_metrics cid ++ am ++ pm ++ cm ++ sm) k"
proof -
  from evaluate_case_Inr [OF assms(1)] assms(2-5)
  obtain vm where vm: "snd (evaluate_case_verify env reqs (case_id_metrics cid ++ am ++ pm ++ cm ++ sm)) = Inr vm"
    and m: "m = vm(''meta.runtime_s'' \<mapsto> runtime_s env)"
    by auto
  from m assms(7) have "m k = vm k" by simp
  also have "\<dots> = (case_id_metrics cid ++ am ++ pm ++ cm ++ sm) k"
    by (rule evaluate_case_verify_preserves [OF vm assms(6)])
  finally show ?thesis .
qed

text \<open>
  Claim C1, amended. \<open>evaluate_case\<close> merges the model outputs with \<open>dict.update\<close> and
  has no conflict check: when the four models and the verification step return, it returns
  a record, and under every key other than the \<open>verification.*\<close> keys and
  \<open>meta.runtime_s\<close> (written afterwards) the record holds the value of the last of the
  case identifier, the antenna, power, cost and scenario model outputs that holds the
  key. A key produced again is overwritten; no error is raised.
\<close>

theorem evaluate_case_last_writer_wins:
  assumes am: "antenna_model env arch scenario Map.empty = Inr am"
      and pm: "power_model env arch scenario am = Inr pm"
      and cm: "cost_model env arch scenario am = Inr cm"
      and sm: "snd (evaluate_case_scenario env arch scenario am) = Inr sm"
      and vm: "snd (evaluate_case_verify env reqs (case_id_metrics cid ++ am ++ pm ++ cm ++ sm)) = Inr vm"
  shows "\<exists>m. snd (evaluate_case env arch scenario reqs cid) = Inr m
          \<and> (\<forall>k. k \<notin> verification_keys \<and> k \<noteq> ''meta.runtime_s''
                \<longrightarrow> m k = last_writer [case_id_metrics cid, am, pm, cm, sm] k)"
proof -
  have r: "snd (evaluate_case env arch scenario reqs cid) = Inr (vm(''meta.runtime_s'' \<mapsto> runtime_s env))"
    by (simp add: evaluate_case_returns [OF am pm cm sm vm])
  have "\<forall>k. k \<notin> verification_keys \<and> k \<noteq> ''meta.runtime_s''
          \<longrightarrow> (vm(''meta.runtime_s'' \<mapsto> runtime_s env)) k = last_writer [case_id_metrics cid, am, pm, cm, sm] k"
    using evaluate_case_record [OF r am pm cm sm] by (simp add: last_writer_merge)
  with r show ?thesis by blast
qed

theorem evaluate_case_last_writer_wins_witness:
  "antenna_model conflict_env sample_arch (CommsScenario sample_comms) Map.empty
       = Inr [''g_peak_db'' \<mapsto> Num 30]
   \<and> power_model conflict_env sample_arch (CommsScenario sample_comms) [''g_peak_db'' \<mapsto> Num 30]
       = Inr [''g_peak_db'' \<mapsto> Num 0]
   \<and> cost_model conflict_env sample_arch (CommsScenario sample_comms) [''g_peak_db'' \<mapsto> Num 30]
       = Inr [''cost_usd'' \<mapsto> Num 25600]
   \<and> snd (evaluate_case_scenario conflict_env sample_arch (CommsScenario sample_comms)
            [''g_peak_db'' \<mapsto> Num 30]) = Inr [''link_margin_db'' \<mapsto> Num 5]
   \<and> ''g_peak_db'' \<notin> verification_keys \<and> ''g_peak_db'' \<noteq> ''meta.runtime_s''
   \<and> (\<exists>m. snd (evaluate_case conflict_env sample_arch (CommsScenario sample_comms) None None) = Inr m
          \<and> m ''g_peak_db'' = Some (Num 0))"
proof -
  let ?am = "[''g_peak_db'' \<mapsto> Num 30]" and ?pm = "[''g_peak_db'' \<mapsto> Num 0]"
  let ?cm = "[''cost_usd'' \<mapsto> Num 25600]" and ?sm = "[''link_margin_db'' \<mapsto> Num 5]"
  let ?S = "CommsScenario sample_comms"
  have am: "antenna_model conflict_env sample_arch ?S Map.empty = Inr ?am"
    and pm: "power_model conflict_env sample_arch ?S ?am = Inr ?pm"
    and cm: "cost_model conflict_env sample_arch ?S ?am = Inr ?cm"
    and sm: "snd (evaluate_case_scenario conflict_env sample_arch ?S ?am) = Inr ?sm"
    by (simp_all add: conflict_env_def sample_env_def evaluate_case_scenario_def)
  have vm: "snd (evaluate_case_verify conflict_env None (case_id_metrics None ++ ?am ++ ?pm ++ ?cm ++ ?sm))
              = Inr (case_id_metrics None ++ ?am ++ ?pm ++ ?cm ++ ?sm)"
    by (simp add: evaluate_case_verify_None)
  from evaluate_case_last_writer_wins [OF am pm cm sm vm]
  obtain m where r: "snd (evaluate_case conflict_env sample_arch ?S None None) = Inr m"
    and w: "\<forall>k. k \<notin> verification_keys \<and> k \<noteq> ''meta.runtime_s''
                \<longrightarrow> m k = last_writer [case_id_metrics None, ?am, ?pm, ?cm, ?sm] k"
    by blast
  have k: "''g_peak_db'' \<notin> verification_keys" "''g_peak_db'' \<noteq> ''meta.runtime_s''"
    by (simp_all add: verification_keys_def)
  from w k have "m ''g_peak_db'' = last_writer [case_id_metrics None, ?am, ?pm, ?cm, ?sm] ''g_peak_db''"
    by blast
  also have "\<dots> = Some (Num 0)"
    by (simp add: last_writer_def case_id_metrics_def)
  finally show ?thesis using r k am pm cm sm by blast
qed

theorem merge_conflict_counterexample:
  "antenna_model conflict_env sample_arch (CommsScenario sample_comms) Map.empty
       = Inr [''g_peak_db'' \<mapsto> Num 30]
   \<and> power_model conflict_env sample_arch (CommsScenario sample_comms) [''g_peak_db'' \<mapsto> Num 30]
       = Inr [''g_peak_db'' \<mapsto> Num 0]
   \<and> (\<exists>m. snd (evaluate_case conflict_env sample_arch (CommsScenario sample_comms) None None) = Inr m
          \<and> m ''g_peak_db'' = Some (Num 0))"
  by (simp add: evaluate_case_def conflict_env_def sample_env_def evaluate_case_scenario_def
      evaluate_case_verify_def Let_def)

section \<open>Verification\<close>

lemma evaluate_case_verify_nonempty:
  assumes "rs \<noteq> []" and "verify env rs m = Inr report"
  shows "evaluate_case_verify env (Some rs) m =
           ([VerifyCall m],
            Inr (m(''verification.passes'' \<mapsto> Num (if passes report then 1 else 0),
                   ''verification.must_pass_count'' \<mapsto> Num (real (must_pass_count report)),
                   ''verification.must_total_count'' \<mapsto> Num (real (must_total_count report)),
                   ''verification.failed_ids'' \<mapsto> Str (join '','' (failed_ids report)))))"
  using assms by (cases "failed_ids report") (simp_all add: evaluate_case_verify_def)

lemma sample_comms_merged:
  "case_id_metrics None ++ [''g_peak_db'' \<mapsto> Num 30] ++ [''prime_power_w'' \<mapsto> Num 8000]
      ++ [''cost_usd'' \<mapsto> Num 25600] ++ [''link_margin_db'' \<mapsto> Num 5]
   = [''g_peak_db'' \<mapsto> Num 30, ''prime_power_w'' \<mapsto> Num 8000, ''cost_usd'' \<mapsto> Num 25600,
      ''link_margin_db'' \<mapsto> Num 5]"
  by (simp add: case_id_metrics_def)

lemma sample_report:
  "RequirementSet_verify sample_requirements
     [''g_peak_db'' \<mapsto> Num 30, ''prime_power_w'' \<mapsto> Num 8000, ''cost_usd'' \<mapsto> Num 25600,
      ''link_margin_db'' \<mapsto> Num 5]
   = Inr \<lparr> passes = True, must_pass_count = 1, must_total_count = 1, failed_ids = [''REQ-COST''] \<rparr>"
  by (simp add: RequirementSet_verify_def sample_requirements_def requirement_check_def)

text \<open>
  Claim C5, amended. For every call of \<open>evaluate_case\<close> with a non-empty requirement
  set in which the four models and \<open>verify\<close> return, \<open>verify\<close> is called last, after
  the four models, on the record merged from their outputs, and the returned record holds
  the keys \<open>verification.passes\<close>, \<open>verification.must_pass_count\<close>,
  \<open>verification.must_total_count\<close> and \<open>verification.failed_ids\<close> with the values
  of the report.
\<close>

theorem evaluate_case_verifies_last:
  assumes am: "antenna_model env arch scenario Map.empty = Inr am"
      and pm: "power_model env arch scenario am = Inr pm"
      and cm: "cost_model env arch scenario am = Inr cm"
      and sm: "snd (evaluate_case_scenario env arch scenario am) = Inr sm"
      and rs: "rs \<noteq> []"
      and rp: "verify env rs (case_id_metrics cid ++ am ++ pm ++ cm ++ sm) = Inr report"
  shows "\<exists>m. evaluate_case env arch scenario (Some rs) cid
               = (pipeline_order scenario am @ [VerifyCall (case_id_metrics cid ++ am ++ pm ++ cm ++ sm)],
                  Inr m)
          \<and> m ''verification.passes'' = Some (Num (if passes report then 1 else 0))
          \<and> m ''verification.must_pass_count'' = Some (Num (real (must_pass_count report)))
          \<and> m ''verification.must_total_count'' = Some (Num (real (must_total_count report)))
          \<and> m ''verification.failed_ids'' = Some (Str (join '','' (failed_ids report)))"
proof -
  let ?m4 = "case_id_metrics cid ++ am ++ pm ++ cm ++ sm"
  note v = evaluate_case_verify_nonempty [OF rs rp]
  have "snd (evaluate_case_verify env (Some rs) ?m4) = Inr (?m4(''verification.passes'' \<mapsto> Num (if passes report then 1 else 0),
                   ''verification.must_pass_count'' \<mapsto> Num (real (must_pass_count report)),
                   ''verification.must_total_count'' \<mapsto> Num (real (must_total_count report)),
                   ''verification.failed_ids'' \<mapsto> Str (join '','' (failed_ids report))))"
    by (simp add: v)
  from evaluate_case_returns [OF am pm cm sm this]
  show ?thesis
    by (simp add: v pipeline_order_def evaluate_case_scenario_fst)
qed

theorem evaluate_case_verifies_last_witness:
  "sample_requirements \<noteq> []
   \<and> (\<exists>m. evaluate_case sample_env sample_arch (CommsScenario sample_comms) (Some sample_requirements) None
             = ([AntennaCall Map.empty, PowerCall [''g_peak_db'' \<mapsto> Num 30],
                 CostCall [''g_peak_db'' \<mapsto> Num 30], CommsCall [''g_peak_db'' \<mapsto> Num 30],
                 VerifyCall [''g_peak_db'' \<mapsto> Num 30, ''prime_power_w'' \<mapsto> Num 8000,
                             ''cost_usd'' \<mapsto> Num 25600, ''link_margin_db'' \<mapsto> Num 5]],
                Inr m)
        \<and> m ''verification.passes'' = Some (Num 1)
        \<and> m ''verification.must_pass_count'' = Some (Num 1)
        \<and> m ''verification.must_total_count'' = Some (Num 1)
        \<and> m ''verification.failed_ids'' = Some (Str ''REQ-COST''))"
proof -
  let ?am = "[''g_peak_db'' \<mapsto> Num 30]" and ?pm = "[''prime_power_w'' \<mapsto> Num 8000]"
  let ?cm = "[''cost_usd'' \<mapsto> Num 25600]" and ?sm = "[''link_margin_db'' \<mapsto> Num 5]"
  let ?S = "CommsScenario sample_comms"
  have ne: "sample_requirements \<noteq> []" by (simp add: sample_requirements_def)
  have am: "antenna_model sample_env sample_arch ?S Map.empty = Inr ?am"
    and pm: "power_model sample_env sample_arch ?S ?am = Inr ?pm"
    and cm: "cost_model sample_env sample_arch ?S ?am = Inr ?cm"
    and sm: "snd (evaluate_case_scenario sample_env sample_arch ?S ?am) = Inr ?sm"
    by (simp_all add: sample_env_models evaluate_case_scenario_comms)
  have rp: "verify sample_env sample_requirements (case_id_metrics None ++ ?am ++ ?pm ++ ?cm ++ ?sm)
              = Inr \<lparr> passes = True, must_pass_count = 1, must_total_count = 1, failed_ids = [''REQ-COST''] \<rparr>"
    by (simp only: sample_comms_merged sample_env_models sample_report)
  from evaluate_case_verifies_last [OF am pm cm sm ne rp] ne
  show ?thesis
    by (simp add: pipeline_order_def sample_comms_merged case_id_metrics_def)
qed

theorem empty_requirements_counterexample:
  "\<exists>m. evaluate_case sample_env sample_arch (CommsScenario sample_comms) (Some []) None
          = ([AntennaCall Map.empty, PowerCall [''g_peak_db'' \<mapsto> Num 30],
              CostCall [''g_peak_db'' \<mapsto> Num 30], CommsCall [''g_peak_db'' \<mapsto> Num 30]],
             Inr m)
      \<and> m ''verification.passes'' = None
      \<and> m ''verification.must_pass_count'' = None
      \<and> m ''verification.must_total_count'' = None
      \<and> m ''verification.failed_ids'' = None"
  by (simp add: evaluate_case_def sample_env_def evaluate_case_scenario_def
      evaluate_case_verify_def Let_def)

section \<open>Exceptions\<close>

text \<open>
  Claim C6. An exception raised by the antenna, power, cost or scenario model in an
  evaluation is the result of \<open>evaluate_case\<close>, unchanged, and no metrics record is
  returned; conversely \<open>evaluate_case\<close> raises only what one of the calls it makes
  raises.
\<close>

theorem evaluate_case_propagates_exceptions:
  "(antenna_model env arch scenario Map.empty = Inl e
      \<longrightarrow> snd (evaluate_case env arch scenario reqs cid) = Inl e)
   \<and> (\<forall>am. antenna_model env arch scenario Map.empty = Inr am
           \<and> power_model env arch scenario am = Inl e
      \<longrightarrow> snd (evaluate_case env arch scenario reqs cid) = Inl e)
   \<and> (\<forall>am pm. antenna_model env arch scenario Map.empty = Inr am
           \<and> power_model env arch scenario am = Inr pm
           \<and> cost_model env arch scenario am = Inl e
      \<longrightarrow> snd (evaluate_case env arch scenario reqs cid) = Inl e)
   \<and> (\<forall>am pm cm. antenna_model env arch scenario Map.empty = Inr am
           \<and> power_model env arch scenario am = Inr pm
           \<and> cost_model env arch scenario am = Inr cm
           \<and> snd (evaluate_case_scenario env arch scenario am) = Inl e
      \<longrightarrow> snd (evaluate_case env arch scenario reqs cid) = Inl e)
   \<and> (snd (evaluate_case env arch scenario reqs cid) = Inl e
      \<longrightarrow> antenna_model env arch scenario Map.empty = Inl e
       \<or> (\<exists>am. antenna_model env arch scenario Map.empty = Inr am
            \<and> (power_model env arch scenario am = Inl e
               \<or> (\<exists>pm. power_model env arch scenario am = Inr pm
                    \<and> (cost_model env arch scenario am = Inl e
                       \<or> (\<exists>cm. cost_model env arch scenario am = Inr cm
                            \<and> (snd (evaluate_case_scenario env arch scenario am) = Inl e
                               \<or> (\<exists>sm. snd (evaluate_case_scenario env arch scenario am) = Inr sm
                                    \<and> snd (evaluate_case_verify env reqs
                                            (case_id_metrics cid ++ am ++ pm ++ cm ++ sm)) = Inl e))))))))"
proof (intro conjI allI impI)
  assume "antenna_model env arch scenario Map.empty = Inl e"
  then show "snd (evaluate_case env arch scenario reqs cid) = Inl e"
    by (simp add: evaluate_case_def)
next
  fix am
  assume "antenna_model env arch scenario Map.empty = Inr am \<and> power_model env arch scenario am = Inl e"
  then show "snd (evaluate_case env arch scenario reqs cid) = Inl e"
    by (simp add: evaluate_case_def)
next
  fix am pm
  assume "antenna_model env arch scenario Map.empty = Inr am
           \<and> power_model env arch scenario am = Inr pm
           \<and> cost_model env arch scenario am = Inl e"
  then show "snd (evaluate_case env arch scenario reqs cid) = Inl e"
    by (simp add: evaluate_case_def)
next
  fix am pm cm
  assume "antenna_model env arch scenario Map.empty = Inr am
           \<and> power_model env arch scenario am = Inr pm
           \<and> cost_model env arch scenario am = Inr cm
           \<and> snd (evaluate_case_scenario env arch scenario am) = Inl e"
  then show "snd (evaluate_case env arch scenario reqs cid) = Inl e"
    by (simp add: evaluate_case_def Let_def)
next
  assume "snd (evaluate_case env arch scenario reqs cid) = Inl e"
  then show "antenna_model env arch scenario Map.empty = Inl e
       \<or> (\<exists>am. antenna_model env arch scenario Map.empty = Inr am
            \<and> (power_model env arch scenario am = Inl e
               \<or> (\<exists>pm. power_model env arch scenario am = Inr pm
                    \<and> (cost_model env arch scenario am = Inl e
                       \<or> (\<exists>cm. cost_model env arch scenario am = Inr cm
                            \<and> (snd (evaluate_case_scenario env arch scenario am) = Inl e
                               \<or> (\<exists>sm. snd (evaluate_case_scenario env arch scenario am) = Inr sm
                                    \<and> snd (evaluate_case_verify env reqs
                                            (case_id_metrics cid ++ am ++ pm ++ cm ++ sm)) = Inl e)))))))"
    by (rule evaluate_case_Inl)
qed

theorem evaluate_case_propagates_exceptions_witness:
  "antenna_model sample_env sample_arch (RadarScenario low_pd_radar) Map.empty
       = Inr [''g_peak_db'' \<mapsto> Num 30]
   \<and> power_model sample_env sample_arch (RadarScenario low_pd_radar) [''g_peak_db'' \<mapsto> Num 30]
       = Inr [''prime_power_w'' \<mapsto> Num 8000]
   \<and> cost_model sample_env sample_arch (RadarScenario low_pd_radar) [''g_peak_db'' \<mapsto> Num 30]
       = Inr [''cost_usd'' \<mapsto> Num 25600]
   \<and> snd (evaluate_case_scenario sample_env sample_arch (RadarScenario low_pd_radar)
            [''g_peak_db'' \<mapsto> Num 30]) = Inl ValueError
   \<and> snd (evaluate_case sample_env sample_arch (RadarScenario low_pd_radar) None None) = Inl ValueError"
proof -
  let ?am = "[''g_peak_db'' \<mapsto> Num 30]" and ?pm = "[''prime_power_w'' \<mapsto> Num 8000]"
  let ?cm = "[''cost_usd'' \<mapsto> Num 25600]"
  let ?S = "RadarScenario low_pd_radar"
  have am: "antenna_model sample_env sample_arch ?S Map.empty = Inr ?am"
    and pm: "power_model sample_env sample_arch ?S ?am = Inr ?pm"
    and cm: "cost_model sample_env sample_arch ?S ?am = Inr ?cm"
    by (simp_all add: sample_env_models)
  have sm: "snd (evaluate_case_scenario sample_env sample_arch ?S ?am) = Inl ValueError"
    by (simp add: evaluate_case_scenario_radar low_pd_radar_raises [of _ 30 0])
  note T = evaluate_case_propagates_exceptions
             [of sample_env sample_arch ?S ValueError None None]
  from T have "\<forall>am pm cm. antenna_model sample_env sample_arch ?S Map.empty = Inr am
           \<and> power_model sample_env sample_arch ?S am = Inr pm
           \<and> cost_model sample_env sample_arch ?S am = Inr cm
           \<and> snd (evaluate_case_scenario sample_env sample_arch ?S am) = Inl ValueError
      \<longrightarrow> snd (evaluate_case sample_env sample_arch ?S None None) = Inl ValueError"
    by (rule conjunct1 [OF conjunct2 [OF conjunct2 [OF conjunct2]]])
  then have "snd (evaluate_case sample_env sample_arch ?S None None) = Inl ValueError"
    using am pm cm sm by blast
  with am pm cm sm show ?thesis by blast
qed

section \<open>Order of the models\<close>

lemma scenario_model_step:
  "snd (evaluate_case_scenario env arch scenario ctx) = scenario_model env arch scenario ctx"
  by (simp add: evaluate_case_scenario_def scenario_model_def split: Scenario.splits)

lemma evaluate_case_verify_unread_fields:
  "evaluate_case_verify (env\<lparr>comms_model := f\<rparr>) reqs m = evaluate_case_verify env reqs m"
  "evaluate_case_verify (env\<lparr>special := sp\<rparr>) reqs m = evaluate_case_verify env reqs m"
  by (simp_all add: evaluate_case_verify_def split: option.splits)

lemma verify_calls_are_not_model_calls:
  "filter is_model_call (fst (evaluate_case_verify env reqs m)) = []"
  using evaluate_case_verify_calls [of env reqs m] by auto

lemma pipeline_order_model_calls:
  "filter is_model_call (pipeline_order scenario am) = pipeline_order scenario am"
  by (simp add: pipeline_order_def split: Scenario.splits)

text \<open>
  Claim C2. In every evaluation the antenna model is applied first, to an empty context;
  if it raises, nothing else is called. Otherwise the power model and then the cost model
  are applied to the antenna output as context, and then exactly the model of the
  scenario's variant (communications or radar), to the same context; the first of them
  that raises ends the evaluation with the calls made so far. When the evaluation returns
  a record, all four models have returned, the model calls are these four in this order,
  and outside the \<open>verification.*\<close> keys and \<open>meta.runtime_s\<close> the record is the case
  identifier updated with the four outputs in this order. The model of the other variant
  is not run: replacing the communications model does not change the evaluation of a
  radar scenario, nor does replacing the special functions of the radar model change the
  evaluation of a communications scenario.
\<close>

theorem evaluate_case_runs_models_in_order:
  "(\<forall>e. antenna_model env arch scenario Map.empty = Inl e
        \<longrightarrow> evaluate_case env arch scenario reqs cid = ([AntennaCall Map.empty], Inl e))
   \<and> (\<forall>am e. antenna_model env arch scenario Map.empty = Inr am
           \<and> power_model env arch scenario am = Inl e
        \<longrightarrow> evaluate_case env arch scenario reqs cid
              = ([AntennaCall Map.empty, PowerCall am], Inl e))
   \<and> (\<forall>am pm e. antenna_model env arch scenario Map.empty = Inr am
           \<and> power_model env arch scenario am = Inr pm
           \<and> cost_model env arch scenario am = Inl e
        \<longrightarrow> evaluate_case env arch scenario reqs cid
              = ([AntennaCall Map.empty, PowerCall am, CostCall am], Inl e))
   \<and> (\<forall>am pm cm e. antenna_model env arch scenario Map.empty = Inr am
           \<and> power_model env arch scenario am = Inr pm
           \<and> cost_model env arch scenario am = Inr cm
           \<and> scenario_model env arch scenario am = Inl e
        \<longrightarrow> evaluate_case env arch scenario reqs cid = (pipeline_order scenario am, Inl e))
   \<and> (\<forall>m. snd (evaluate_case env arch scenario reqs cid) = Inr m
        \<longrightarrow> (\<exists>am pm cm sm.
               antenna_model env arch scenario Map.empty = Inr am
             \<and> power_model env arch scenario am = Inr pm
             \<and> cost_model env arch scenario am = Inr cm
             \<and> scenario_model env arch scenario am = Inr sm
             \<and> filter is_model_call (fst (evaluate_case env arch scenario reqs cid))
                 = pipeline_order scenario am
             \<and> (\<forall>k. k \<notin> verification_keys \<and> k \<noteq> ''meta.runtime_s''
                   \<longrightarrow> m k = (case_id_metrics cid ++ am ++ pm ++ cm ++ sm) k)))
   \<and> (\<forall>rs f. scenario = RadarScenario rs
        \<longrightarrow> evaluate_case (env\<lparr>comms_model := f\<rparr>) arch scenario reqs cid
              = evaluate_case env arch scenario reqs cid)
   \<and> (\<forall>cs sp. scenario = CommsScenario cs
        \<longrightarrow> evaluate_case (env\<lparr>special := sp\<rparr>) arch scenario reqs cid
              = evaluate_case env arch scenario reqs cid)"
proof (intro conjI allI impI)
  fix e
  assume "antenna_model env arch scenario Map.empty = Inl e"
  then show "evaluate_case env arch scenario reqs cid = ([AntennaCall Map.empty], Inl e)"
    by (simp add: evaluate_case_def)
next
  fix am e
  assume "antenna_model env arch scenario Map.empty = Inr am
           \<and> power_model env arch scenario am = Inl e"
  then show "evaluate_case env arch scenario reqs cid
              = ([AntennaCall Map.empty, PowerCall am], Inl e)"
    by (simp add: evaluate_case_def)
next
  fix am pm e
  assume "antenna_model env arch scenario Map.empty = Inr am
           \<and> power_model env arch scenario am = Inr pm
           \<and> cost_model env arch scenario am = Inl e"
  then show "evaluate_case env arch scenario reqs cid
              = ([AntennaCall Map.empty, PowerCall am, CostCall am], Inl e)"
    by (simp add: evaluate_case_def)
next
  fix am pm cm e
  assume "antenna_model env arch scenario Map.empty = Inr am
           \<and> power_model env arch scenario am = Inr pm
           \<and> cost_model env arch scenario am = Inr cm
           \<and> scenario_model env arch scenario am = Inl e"
  then show "evaluate_case env arch scenario reqs cid = (pipeline_order scenario am, Inl e)"
    by (simp add: evaluate_case_def Let_def scenario_model_step pipeline_order_def
        evaluate_case_scenario_fst)
next
  fix m
  assume m: "snd (evaluate_case env arch scenario reqs cid) = Inr m"
  from evaluate_case_Inr [OF m]
  obtain am pm cm sm where am: "antenna_model env arch scenario Map.empty = Inr am"
    and pm: "power_model env arch scenario am = Inr pm"
    and cm: "cost_model env arch scenario am = Inr cm"
    and sm: "snd (evaluate_case_scenario env arch scenario am) = Inr sm"
    by blast
  have calls: "filter is_model_call (fst (evaluate_case env arch scenario reqs cid))
                 = pipeline_order scenario am"
    by (simp add: evaluate_case_calls am pm cm sm pipeline_order_model_calls
        verify_calls_are_not_model_calls)
  have rec: "\<forall>k. k \<notin> verification_keys \<and> k \<noteq> ''meta.runtime_s''
                   \<longrightarrow> m k = (case_id_metrics cid ++ am ++ pm ++ cm ++ sm) k"
    using evaluate_case_record [OF m am pm cm sm] by blast
  from sm have "scenario_model env arch scenario am = Inr sm"
    by (simp add: scenario_model_step)
  with am pm cm calls rec
  show "\<exists>am pm cm sm.
               antenna_model env arch scenario Map.empty = Inr am
             \<and> power_model env arch scenario am = Inr pm
             \<and> cost_model env arch scenario am = Inr cm
             \<and> scenario_model env arch scenario am = Inr sm
             \<and> filter is_model_call (fst (evaluate_case env arch scenario reqs cid))
                 = pipeline_order scenario am
             \<and> (\<forall>k. k \<notin> verification_keys \<and> k \<noteq> ''meta.runtime_s''
                   \<longrightarrow> m k = (case_id_metrics cid ++ am ++ pm ++ cm ++ sm) k)"
    by blast
next
  fix rs f
  assume "scenario = RadarScenario rs"
  then show "evaluate_case (env\<lparr>comms_model := f\<rparr>) arch scenario reqs cid
              = evaluate_case env arch scenario reqs cid"
    by (auto simp: evaluate_case_def evaluate_case_scenario_def Let_def
        evaluate_case_verify_unread_fields split: sum.splits)
next
  fix cs sp
  assume "scenario = CommsScenario cs"
  then show "evaluate_case (env\<lparr>special := sp\<rparr>) arch scenario reqs cid
              = evaluate_case env arch scenario reqs cid"
    by (auto simp: evaluate_case_def evaluate_case_scenario_def Let_def
        evaluate_case_verify_unread_fields split: sum.splits)
qed

theorem evaluate_case_runs_models_in_order_witness:
  "antenna_model sample_env sample_arch (RadarScenario low_pd_radar) Map.empty
       = Inr [''g_peak_db'' \<mapsto> Num 30]
   \<and> power_model sample_env sample_arch (RadarScenario low_pd_radar) [''g_peak_db'' \<mapsto> Num 30]
       = Inr [''prime_power_w'' \<mapsto> Num 8000]
   \<and> cost_model sample_env sample_arch (RadarScenario low_pd_radar) [''g_peak_db'' \<mapsto> Num 30]
       = Inr [''cost_usd'' \<mapsto> Num 25600]
   \<and> scenario_model sample_env sample_arch (RadarScenario low_pd_radar) [''g_peak_db'' \<mapsto> Num 30]
       = Inl ValueError
   \<and> evaluate_case sample_env sample_arch (RadarScenario low_pd_radar) None None
       = ([AntennaCall Map.empty, PowerCall [''g_peak_db'' \<mapsto> Num 30],
           CostCall [''g_peak_db'' \<mapsto> Num 30], RadarCall [''g_peak_db'' \<mapsto> Num 30]],
          Inl ValueError)
   \<and> (\<exists>m. snd (evaluate_case sample_env sample_arch (CommsScenario sample_comms) None None) = Inr m
          \<and> filter is_model_call
               (fst (evaluate_case sample_env sample_arch (CommsScenario sample_comms) None None))
             = [AntennaCall Map.empty, PowerCall [''g_peak_db'' \<mapsto> Num 30],
                CostCall [''g_peak_db'' \<mapsto> Num 30], CommsCall [''g_peak_db'' \<mapsto> Num 30]]
          \<and> m ''g_peak_db'' = Some (Num 30) \<and> m ''prime_power_w'' = Some (Num 8000)
          \<and> m ''cost_usd'' = Some (Num 25600) \<and> m ''link_margin_db'' = Some (Num 5))
   \<and> evaluate_case (sample_env\<lparr>antenna_model := (\<lambda>a s c. Inl ValueError)\<rparr>) sample_arch
         (CommsScenario sample_comms) None None
       = ([AntennaCall Map.empty], Inl ValueError)
   \<and> evaluate_case (sample_env\<lparr>power_model := (\<lambda>a s c. Inl TypeError)\<rparr>) sample_arch
         (CommsScenario sample_comms) None None
       = ([AntennaCall Map.empty, PowerCall [''g_peak_db'' \<mapsto> Num 30]], Inl TypeError)
   \<and> evaluate_case (sample_env\<lparr>cost_model := (\<lambda>a s c. Inl ZeroDivisionError)\<rparr>) sample_arch
         (CommsScenario sample_comms) None None
       = ([AntennaCall Map.empty, PowerCall [''g_peak_db'' \<mapsto> Num 30],
           CostCall [''g_peak_db'' \<mapsto> Num 30]], Inl ZeroDivisionError)
   \<and> evaluate_case (sample_env\<lparr>comms_model := (\<lambda>a s c. Inl TypeError)\<rparr>) sample_arch
         (RadarScenario low_pd_radar) None None
       = evaluate_case sample_env sample_arch (RadarScenario low_pd_radar) None None
   \<and> evaluate_case (sample_env\<lparr>special := \<lparr>erfc = (\<lambda>x. 0), gammaincinv = (\<lambda>a y. 0)\<rparr>\<rparr>)
         sample_arch (CommsScenario sample_comms) None None
       = evaluate_case sample_env sample_arch (CommsScenario sample_comms) None None"
proof -
  let ?am = "[''g_peak_db'' \<mapsto> Num 30]" and ?pm = "[''prime_power_w'' \<mapsto> Num 8000]"
  let ?cm = "[''cost_usd'' \<mapsto> Num 25600]" and ?sm = "[''link_margin_db'' \<mapsto> Num 5]"
  let ?R = "RadarScenario low_pd_radar" and ?C = "CommsScenario sample_comms"
  have am: "antenna_model sample_env sample_arch ?R Map.empty = Inr ?am"
    and pm: "power_model sample_env sample_arch ?R ?am = Inr ?pm"
    and cm: "cost_model sample_env sample_arch ?R ?am = Inr ?cm"
    by (simp_all add: sample_env_models)
  have sm: "scenario_model sample_env sample_arch ?R ?am = Inl ValueError"
    by (simp add: scenario_model_def low_pd_radar_raises [of _ 30 0])
  note R = evaluate_case_runs_models_in_order [of sample_env sample_arch ?R None None]
  from R have "\<forall>am pm cm e. antenna_model sample_env sample_arch ?R Map.empty = Inr am
           \<and> power_model sample_env sample_arch ?R am = Inr pm
           \<and> cost_model sample_env sample_arch ?R am = Inr cm
           \<and> scenario_model sample_env sample_arch ?R am = Inl e
        \<longrightarrow> evaluate_case sample_env sample_arch ?R None None = (pipeline_order ?R am, Inl e)"
    by (rule conjunct1 [OF conjunct2 [OF conjunct2 [OF conjunct2]]])
  then have "evaluate_case sample_env sample_arch ?R None None = (pipeline_order ?R ?am, Inl ValueError)"
    using am pm cm sm by blast
  then have fail: "evaluate_case sample_env sample_arch ?R None None
       = ([AntennaCall Map.empty, PowerCall ?am, CostCall ?am, RadarCall ?am], Inl ValueError)"
    by (simp add: pipeline_order_def)
  obtain m where m: "snd (evaluate_case sample_env sample_arch ?C None None) = Inr m"
    by (simp add: evaluate_case_def Let_def sample_env_models evaluate_case_scenario_def
        evaluate_case_verify_def)
  note C = evaluate_case_runs_models_in_order [of sample_env sample_arch ?C None None]
  from C have "\<forall>m. snd (evaluate_case sample_env sample_arch ?C None None) = Inr m
        \<longrightarrow> (\<exists>am pm cm sm.
               antenna_model sample_env sample_arch ?C Map.empty = Inr am
             \<and> power_model sample_env sample_arch ?C am = Inr pm
             \<and> cost_model sample_env sample_arch ?C am = Inr cm
             \<and> scenario_model sample_env sample_arch ?C am = Inr sm
             \<and> filter is_model_call (fst (evaluate_case sample_env sample_arch ?C None None))
                 = pipeline_order ?C am
             \<and> (\<forall>k. k \<notin> verification_keys \<and> k \<noteq> ''meta.runtime_s''
                   \<longrightarrow> m k = (case_id_metrics None ++ am ++ pm ++ cm ++ sm) k))"
    by (rule conjunct1 [OF conjunct2 [OF conjunct2 [OF conjunct2 [OF conjunct2]]]])
  with m obtain am' pm' cm' sm' where
        a: "antenna_model sample_env sample_arch ?C Map.empty = Inr am'"
    and p: "power_model sample_env sample_arch ?C am' = Inr pm'"
    and c: "cost_model sample_env sample_arch ?C am' = Inr cm'"
    and s: "scenario_model sample_env sample_arch ?C am' = Inr sm'"
    and calls: "filter is_model_call (fst (evaluate_case sample_env sample_arch ?C None None))
                 = pipeline_order ?C am'"
    and rec: "\<forall>k. k \<notin> verification_keys \<and> k \<noteq> ''meta.runtime_s''
                   \<longrightarrow> m k = (case_id_metrics None ++ am' ++ pm' ++ cm' ++ sm') k"
    by blast
  from a have am': "am' = ?am" by (simp add: sample_env_models)
  from p have pm': "pm' = ?pm" by (simp add: sample_env_models)
  from c have cm': "cm' = ?cm" by (simp add: sample_env_models)
  from s have sm': "sm' = ?sm" by (simp add: scenario_model_def sample_env_models)
  have k: "\<And>k. k \<in> {''g_peak_db'', ''prime_power_w'', ''cost_usd'', ''link_margin_db''}
             \<Longrightarrow> k \<notin> verification_keys \<and> k \<noteq> ''meta.runtime_s''"
    by (auto simp: verification_keys_def)
  have vals: "m ''g_peak_db'' = Some (Num 30) \<and> m ''prime_power_w'' = Some (Num 8000)
          \<and> m ''cost_usd'' = Some (Num 25600) \<and> m ''link_margin_db'' = Some (Num 5)"
    using rec k by (simp add: am' pm' cm' sm' case_id_metrics_def)
  from calls have calls': "filter is_model_call (fst (evaluate_case sample_env sample_arch ?C None None))
             = [AntennaCall Map.empty, PowerCall ?am, CostCall ?am, CommsCall ?am]"
    by (simp add: am' pipeline_order_def)
  have i1: "evaluate_case (sample_env\<lparr>antenna_model := (\<lambda>a s c. Inl ValueError)\<rparr>) sample_arch
              ?C None None = ([AntennaCall Map.empty], Inl ValueError)"
    by (rule evaluate_case_runs_models_in_order [THEN conjunct1, rule_format]) simp
  have i2: "evaluate_case (sample_env\<lparr>power_model := (\<lambda>a s c. Inl TypeError)\<rparr>) sample_arch
              ?C None None = ([AntennaCall Map.empty, PowerCall ?am], Inl TypeError)"
    by (rule evaluate_case_runs_models_in_order [THEN conjunct2, THEN conjunct1, rule_format])
       (simp add: sample_env_def)
  have i3: "evaluate_case (sample_env\<lparr>cost_model := (\<lambda>a s c. Inl ZeroDivisionError)\<rparr>) sample_arch
              ?C None None
            = ([AntennaCall Map.empty, PowerCall ?am, CostCall ?am], Inl ZeroDivisionError)"
    by (rule evaluate_case_runs_models_in_order
          [THEN conjunct2, THEN conjunct2, THEN conjunct1, rule_format,
           where pm = "[''prime_power_w'' \<mapsto> Num 8000]"])
       (simp add: sample_env_def)
  have i6: "evaluate_case (sample_env\<lparr>comms_model := (\<lambda>a s c. Inl TypeError)\<rparr>) sample_arch
              ?R None None = evaluate_case sample_env sample_arch ?R None None"
    by (rule evaluate_case_runs_models_in_order
          [THEN conjunct2, THEN conjunct2, THEN conjunct2, THEN conjunct2, THEN conjunct2,
           THEN conjunct1, rule_format, OF refl])
  have i7: "evaluate_case (sample_env\<lparr>special := \<lparr>erfc = (\<lambda>x. 0), gammaincinv = (\<lambda>a y. 0)\<rparr>\<rparr>)
              sample_arch ?C None None = evaluate_case sample_env sample_arch ?C None None"
    by (rule evaluate_case_runs_models_in_order
          [THEN conjunct2, THEN conjunct2, THEN conjunct2, THEN conjunct2, THEN conjunct2,
           THEN conjunct2, rule_format, OF refl])
  from am pm cm sm fail m calls' vals i1 i2 i3 i6 i7 show ?thesis by blast
qed

section \<open>Antenna gain in the radar metrics\<close>

lemma scan_loss_env_evaluates:
  "\<exists>m. snd (evaluate_case scan_loss_env sample_arch (RadarScenario sample_radar) None None) = Inr m
       \<and> m ''g_ant_db'' = Some (Num 27)"
proof -
  let ?am = "[''g_peak_db'' \<mapsto> Num 30, ''scan_loss_db'' \<mapsto> Num 3]"
  let ?pm = "[''prime_power_w'' \<mapsto> Num 8000]" and ?cm = "[''cost_usd'' \<mapsto> Num 25600]"
  let ?S = "RadarScenario sample_radar"
  have am: "antenna_model scan_loss_env sample_arch ?S Map.empty = Inr ?am"
    and pm: "power_model scan_loss_env sample_arch ?S ?am = Inr ?pm"
    and cm: "cost_model scan_loss_env sample_arch ?S ?am = Inr ?cm"
    and sp: "special scan_loss_env = sample_special"
    by (simp_all add: scan_loss_env_def sample_env_def)
  obtain rm where rm: "RadarModel_evaluate sample_special sample_arch sample_radar ?am = Inr rm"
    and g: "rm ''g_ant_db'' = Some (Num 27)"
    using sample_radar_returns [of ?am 30 3] by auto
  have sm: "snd (evaluate_case_scenario scan_loss_env sample_arch ?S ?am) = Inr rm"
    by (simp add: evaluate_case_scenario_radar sp rm)
  have vm: "snd (evaluate_case_verify scan_loss_env None (case_id_metrics None ++ ?am ++ ?pm ++ ?cm ++ rm))
              = Inr (case_id_metrics None ++ ?am ++ ?pm ++ ?cm ++ rm)"
    by (simp add: evaluate_case_verify_None)
  have "snd (evaluate_case scan_loss_env sample_arch ?S None None)
          = Inr ((case_id_metrics None ++ ?am ++ ?pm ++ ?cm ++ rm)(''meta.runtime_s'' \<mapsto> runtime_s scan_loss_env))"
    by (simp add: evaluate_case_returns [OF am pm cm sm vm])
  moreover have "((case_id_metrics None ++ ?am ++ ?pm ++ ?cm ++ rm)(''meta.runtime_s'' \<mapsto> runtime_s scan_loss_env))
                   ''g_ant_db'' = Some (Num 27)"
    using g by (simp add: map_add_def)
  ultimately show ?thesis by auto
qed

text \<open>
  Claim C4, amended. For every evaluation of a radar scenario that returns a record and in
  which the antenna output, passed to the radar model as context, holds a number \<open>g\<close>
  under \<open>g_peak_db\<close>: the returned record holds \<open>g_ant_db = g\<close> when the antenna output
  holds no \<open>scan_loss_db\<close>, and \<open>g_ant_db = g - l\<close> when it holds the number \<open>l\<close> under
  \<open>scan_loss_db\<close>. In particular \<open>g_ant_db\<close> is exactly 30.0 when \<open>g_peak_db\<close> is 30.0
  and \<open>scan_loss_db\<close> is absent or 0.
\<close>

theorem radar_g_ant_db_is_context_gain:
  assumes m: "snd (evaluate_case env arch (RadarScenario s) reqs cid) = Inr m"
      and am: "antenna_model env arch (RadarScenario s) Map.empty = Inr am"
      and g: "am ''g_peak_db'' = Some (Num g)"
  shows "(am ''scan_loss_db'' = None \<longrightarrow> m ''g_ant_db'' = Some (Num g))
       \<and> (\<forall>l. am ''scan_loss_db'' = Some (Num l) \<longrightarrow> m ''g_ant_db'' = Some (Num (g - l)))
       \<and> (g = 30 \<and> (am ''scan_loss_db'' = None \<or> am ''scan_loss_db'' = Some (Num 0))
            \<longrightarrow> m ''g_ant_db'' = Some (Num 30))"
proof -
  from evaluate_case_Inr [OF m] am
  obtain pm cm sm where pm: "power_model env arch (RadarScenario s) am = Inr pm"
    and cm: "cost_model env arch (RadarScenario s) am = Inr cm"
    and sm: "snd (evaluate_case_scenario env arch (RadarScenario s) am) = Inr sm"
    by auto
  from sm have r: "RadarModel_evaluate (special env) arch s am = Inr sm"
    by (simp add: evaluate_case_scenario_radar)
  have k: "''g_ant_db'' \<notin> verification_keys" "''g_ant_db'' \<noteq> ''meta.runtime_s''"
    by (simp_all add: verification_keys_def)
  have rec: "m ''g_ant_db'' = sm ''g_ant_db''"
    using evaluate_case_record [OF m am pm cm sm k] r
    by (auto simp: map_add_def RadarModel_evaluate_def bindE_eq_Inr Let_def split: option.splits)
  have none: "am ''scan_loss_db'' = None \<Longrightarrow> m ''g_ant_db'' = Some (Num g)"
    using RadarModel_evaluate_g_ant_db [OF r g, of 0] rec by simp
  have some: "\<And>l. am ''scan_loss_db'' = Some (Num l) \<Longrightarrow> m ''g_ant_db'' = Some (Num (g - l))"
    using RadarModel_evaluate_g_ant_db [OF r g] rec by simp
  from none some show ?thesis by auto
qed

theorem radar_g_ant_db_is_context_gain_witness:
  "(\<exists>m. snd (evaluate_case sample_env sample_arch (RadarScenario sample_radar) None None) = Inr m
       \<and> antenna_model sample_env sample_arch (RadarScenario sample_radar) Map.empty
            = Inr [''g_peak_db'' \<mapsto> Num 30]
       \<and> [''g_peak_db'' \<mapsto> Num 30] ''g_peak_db'' = Some (Num 30)
       \<and> [''g_peak_db'' \<mapsto> Num 30] ''scan_loss_db'' = None
       \<and> m ''g_ant_db'' = Some (Num 30))
   \<and> (\<exists>m. snd (evaluate_case scan_loss_env sample_arch (RadarScenario sample_radar) None None) = Inr m
       \<and> antenna_model scan_loss_env sample_arch (RadarScenario sample_radar) Map.empty
            = Inr [''g_peak_db'' \<mapsto> Num 30, ''scan_loss_db'' \<mapsto> Num 3]
       \<and> [''g_peak_db'' \<mapsto> Num 30, ''scan_loss_db'' \<mapsto> Num 3] ''g_peak_db'' = Some (Num 30)
       \<and> [''g_peak_db'' \<mapsto> Num 30, ''scan_loss_db'' \<mapsto> Num 3] ''scan_loss_db'' = Some (Num 3)
       \<and> m ''g_ant_db'' = Some (Num (30 - 3)))"
proof (intro conjI)
  let ?am = "[''g_peak_db'' \<mapsto> Num 30]"
  let ?S = "RadarScenario sample_radar"
  have am: "antenna_model sample_env sample_arch ?S Map.empty = Inr ?am"
    by (simp add: sample_env_models)
  obtain m where m: "snd (evaluate_case sample_env sample_arch ?S None None) = Inr m"
    using sample_radar_evaluates by blast
  have g: "?am ''g_peak_db'' = Some (Num 30)" by simp
  have l: "?am ''scan_loss_db'' = None" by simp
  have "m ''g_ant_db'' = Some (Num 30)"
    by (rule radar_g_ant_db_is_context_gain [OF m am g, THEN conjunct1, rule_format, OF l])
  with m am g l
  show "\<exists>m. snd (evaluate_case sample_env sample_arch ?S None None) = Inr m
       \<and> antenna_model sample_env sample_arch ?S Map.empty = Inr ?am
       \<and> ?am ''g_peak_db'' = Some (Num 30) \<and> ?am ''scan_loss_db'' = None
       \<and> m ''g_ant_db'' = Some (Num 30)"
    by blast
next
  let ?am = "[''g_peak_db'' \<mapsto> Num 30, ''scan_loss_db'' \<mapsto> Num 3]"
  let ?S = "RadarScenario sample_radar"
  have am: "antenna_model scan_loss_env sample_arch ?S Map.empty = Inr ?am"
    by (simp add: scan_loss_env_def sample_env_def)
  obtain m where m: "snd (evaluate_case scan_loss_env sample_arch ?S None None) = Inr m"
    using scan_loss_env_evaluates by blast
  have g: "?am ''g_peak_db'' = Some (Num 30)" by simp
  have l: "?am ''scan_loss_db'' = Some (Num 3)" by simp
  have "m ''g_ant_db'' = Some (Num (30 - 3))"
    by (rule radar_g_ant_db_is_context_gain
          [OF m am g, THEN conjunct2, THEN conjunct1, rule_format, OF l])
  with m am g l
  show "\<exists>m. snd (evaluate_case scan_loss_env sample_arch ?S None None) = Inr m
       \<and> antenna_model scan_loss_env sample_arch ?S Map.empty = Inr ?am
       \<and> ?am ''g_peak_db'' = Some (Num 30) \<and> ?am ''scan_loss_db'' = Some (Num 3)
       \<and> m ''g_ant_db'' = Some (Num (30 - 3))"
    by blast
qed

theorem scan_loss_counterexample:
  "antenna_model scan_loss_env sample_arch (RadarScenario sample_radar) Map.empty
       = Inr [''g_peak_db'' \<mapsto> Num 30, ''scan_loss_db'' \<mapsto> Num 3]
   \<and> [''g_peak_db'' \<mapsto> Num 30, ''scan_loss_db'' \<mapsto> Num 3] ''g_peak_db'' = Some (Num 30)
   \<and> (\<exists>m. snd (evaluate_case scan_loss_env sample_arch (RadarScenario sample_radar) None None) = Inr m
          \<and> m ''g_ant_db'' = Some (Num 27))"
  using scan_loss_env_evaluates by (simp add: scan_loss_env_def sample_env_def)

section \<open>Scenarios accepted by the validators and rejected by the radar model\<close>

lemma low_pd_radar_valid: "RadarDetectionScenario_valid low_pd_radar"
  by (simp add: RadarDetectionScenario_valid_def low_pd_radar_def sample_radar_def)

lemma high_pfa_radar_valid: "RadarDetectionScenario_valid high_pfa_radar"
  by (simp add: RadarDetectionScenario_valid_def high_pfa_radar_def sample_radar_def)

lemma sample_env_radar_raises:
  assumes "RadarModel_evaluate sample_special sample_arch s [''g_peak_db'' \<mapsto> Num 30] = Inl e"
  shows "snd (evaluate_case sample_env sample_arch (RadarScenario s) reqs cid) = Inl e"
  using assms
  by (simp add: evaluate_case_def Let_def sample_env_models evaluate_case_scenario_def)

text \<open>
  Claim C8. There is a radar scenario that satisfies the field constraints and has a
  positive frequency, with required detection probability 0.05, and one with false-alarm
  probability 0.5, on which
  \<open>albersheim_snr\<close> raises ValueError and so does the single-case evaluation; on the
  same scenario with the default probabilities the evaluation returns a record.
\<close>

theorem valid_radar_scenario_raises_ValueError:
  "(\<exists>s. RadarDetectionScenario_valid s \<and> 0 < freq_hz s \<and> pd_required s = 0.05
        \<and> albersheim_snr (pd_required s) (pfa s) 1 = Inl ValueError
        \<and> snd (evaluate_case sample_env sample_arch (RadarScenario s) None None) = Inl ValueError)
   \<and> (\<exists>s. RadarDetectionScenario_valid s \<and> 0 < freq_hz s \<and> pfa s = 0.5
        \<and> albersheim_snr (pd_required s) (pfa s) 1 = Inl ValueError
        \<and> snd (evaluate_case sample_env sample_arch (RadarScenario s) None None) = Inl ValueError)
   \<and> (\<exists>m. snd (evaluate_case sample_env sample_arch (RadarScenario sample_radar) None None) = Inr m)"
proof (intro conjI)
  have "RadarDetectionScenario_valid low_pd_radar \<and> 0 < freq_hz low_pd_radar
        \<and> pd_required low_pd_radar = 0.05
        \<and> albersheim_snr (pd_required low_pd_radar) (pfa low_pd_radar) 1 = Inl ValueError
        \<and> snd (evaluate_case sample_env sample_arch (RadarScenario low_pd_radar) None None) = Inl ValueError"
    using low_pd_radar_valid sample_env_radar_raises [OF low_pd_radar_raises [of _ 30 0]]
    by (simp add: low_pd_radar_def sample_radar_def albersheim_snr_def)
  then show "\<exists>s. RadarDetectionScenario_valid s \<and> 0 < freq_hz s \<and> pd_required s = 0.05
        \<and> albersheim_snr (pd_required s) (pfa s) 1 = Inl ValueError
        \<and> snd (evaluate_case sample_env sample_arch (RadarScenario s) None None) = Inl ValueError"
    by blast
  have "RadarDetectionScenario_valid high_pfa_radar \<and> 0 < freq_hz high_pfa_radar
        \<and> pfa high_pfa_radar = 0.5
        \<and> albersheim_snr (pd_required high_pfa_radar) (pfa high_pfa_radar) 1 = Inl ValueError
        \<and> snd (evaluate_case sample_env sample_arch (RadarScenario high_pfa_radar) None None) = Inl ValueError"
    using high_pfa_radar_valid sample_env_radar_raises [OF high_pfa_radar_raises [of _ 30 0]]
    by (simp add: high_pfa_radar_def sample_radar_def albersheim_snr_def)
  then show "\<exists>s. RadarDetectionScenario_valid s \<and> 0 < freq_hz s \<and> pfa s = 0.5
        \<and> albersheim_snr (pd_required s) (pfa s) 1 = Inl ValueError
        \<and> snd (evaluate_case sample_env sample_arch (RadarScenario s) None None) = Inl ValueError"
    by blast
  show "\<exists>m. snd (evaluate_case sample_env sample_arch (RadarScenario sample_radar) None None) = Inr m"
    using sample_radar_evaluates by blast
qed

end
